theory Spec2Isabelle
  imports Main
begin

section \<open>JavaScript values\<close>

text \<open>
  The values the report code handles are what the cluster client hands back after parsing a
  JSON response, plus \<open>undefined\<close> and the functions an object inherits from its
  prototype. Only whether a number is zero matters to this code, so a number is an \<open>int\<close>.
  An object is the list of its own properties; \<open>map_of\<close> reads it, so the first binding
  of a key is the one that counts.
\<close>

datatype jsval =
    JUndefined
  | JNull
  | JBool bool
  | JNum int
  | JStr string
  | JArr "jsval list"
  | JObj "(string \<times> jsval) list"
  | JFunction string

text \<open>
  What a \<open>throw\<close> or a rejection carries: an \<open>Error\<close> with its message, or some other
  value.
\<close>

datatype thrown = Error string | NonError jsval

section \<open>Data model\<close>

record ColumnDefinition =
  name :: string
  description :: "string option"
  jsonPath :: string
  type :: string
  priority :: "int option"

record CRDMetadata =
  group :: string
  plural :: string
  columns :: "ColumnDefinition list"
  scope :: string

text \<open>A manifest is the list of a projected record's own properties, in insertion order.\<close>

record ReportsData =
  manifests :: "(string \<times> jsval) list list"
  clusterName :: string
  scope :: string
  error :: "string option"
  resource :: "string option"

text \<open>
  What the cluster client returns, typed as the code's casts type it. A field that the code
  reads unguarded is required here; a field that the code tests before use (\<open>?.\<close>,
  \<open>|| []\<close>, \<open>|| 'Cluster'\<close>, \<open>if (!crdSpec)\<close>) is optional.
\<close>

record V1CustomResourceColumnDefinition =
  col_name :: string
  col_description :: "string option"
  col_format :: "string option"
  col_jsonPath :: string
  col_type :: string
  col_priority :: "int option"

record V1CustomResourceDefinitionVersion =
  version_name :: string
  additionalPrinterColumns :: "V1CustomResourceColumnDefinition list option"

text \<open>An element of the discovery listing: \<open>crd.metadata.name\<close> and the fields of \<open>crd.spec\<close>.\<close>

record V1CustomResourceDefinition =
  metadata_name :: string
  spec_group :: string
  spec_scope :: string
  spec_names_plural :: string
  spec_versions :: "V1CustomResourceDefinitionVersion list"

text \<open>The \<open>spec\<close> of the object that \<open>loadReports\<close> looks up by name.\<close>

record crdSpec =
  versions :: "V1CustomResourceDefinitionVersion list"
  crd_scope :: "string option"

record crdResponse =
  spec :: "crdSpec option"

section \<open>The host\<close>

text \<open>
  The parts of the JavaScript host that the repository does not define: the properties an
  object inherits through its prototype chain, the conversion of an object to a primitive
  (which may throw a TypeError), the time value \<open>new Date(v)\<close> holds for a primitive
  \<open>v\<close> (\<open>None\<close> is NaN, an invalid date), the locale rendering of a valid time value, the
  message of the TypeError raised by reading a property of undefined or null, and
  \<open>JSON.stringify\<close> and \<open>JSON.parse\<close> at the two payload types.
\<close>

record host =
  inherited :: "jsval \<Rightarrow> string \<Rightarrow> jsval option"
  objToPrimitive :: "jsval \<Rightarrow> thrown + jsval"
  timeValue :: "jsval \<Rightarrow> int option"
  localeFormat :: "int \<Rightarrow> string"
  typeErrorMessage :: "jsval \<Rightarrow> string \<Rightarrow> string"
  stringifyReports :: "ReportsData \<Rightarrow> string"
  parseReports :: "string \<Rightarrow> thrown + ReportsData"
  stringifyCRDs :: "CRDMetadata list \<Rightarrow> string"
  parseCRDs :: "string \<Rightarrow> thrown + CRDMetadata list"

section \<open>Truthiness and types\<close>

text \<open>\<open>if (v)\<close>: the falsy values are undefined, null, false, 0 and the empty string.\<close>

fun truthy :: "jsval \<Rightarrow> bool" where
  "truthy JUndefined = False"
| "truthy JNull = False"
| "truthy (JBool b) = b"
| "truthy (JNum n) = (n \<noteq> 0)"
| "truthy (JStr s) = (s \<noteq> [])"
| "truthy (JArr xs) = True"
| "truthy (JObj kvs) = True"
| "truthy (JFunction f) = True"

text \<open>\<open>typeof v === 'object'\<close>: true of null, arrays and objects, false of functions.\<close>

fun typeof_object :: "jsval \<Rightarrow> bool" where
  "typeof_object JNull = True"
| "typeof_object (JArr xs) = True"
| "typeof_object (JObj kvs) = True"
| "typeof_object v = False"

fun isPrimitive :: "jsval \<Rightarrow> bool" where
  "isPrimitive (JArr xs) = False"
| "isPrimitive (JObj kvs) = False"
| "isPrimitive (JFunction f) = False"
| "isPrimitive v = True"

subsection \<open>Property access\<close>

text \<open>
  An array's own keys are \<open>length\<close> and the canonical decimal indices below its length
  (\<open>"0"\<close>, \<open>"7"\<close>, \<open>"12"\<close>, but not \<open>"01"\<close>).
\<close>

definition digit_val :: "char \<Rightarrow> nat option" where
  "digit_val c =
     (let n = (of_char c :: nat) in if 48 \<le> n \<and> n \<le> 57 then Some (n - 48) else None)"

fun digits_val :: "nat \<Rightarrow> string \<Rightarrow> nat option" where
  "digits_val acc [] = Some acc"
| "digits_val acc (c # cs) =
     (case digit_val c of None \<Rightarrow> None | Some d \<Rightarrow> digits_val (10 * acc + d) cs)"

definition array_index :: "string \<Rightarrow> nat option" where
  "array_index k =
     (if k = [] then None
      else if hd k = CHR ''0'' \<and> tl k \<noteq> [] then None
      else digits_val 0 k)"

fun own_property :: "jsval \<Rightarrow> string \<Rightarrow> jsval option" where
  "own_property (JObj kvs) k = map_of kvs k"
| "own_property (JArr xs) k =
     (if k = ''length'' then Some (JNum (int (length xs)))
      else case array_index k of
             None \<Rightarrow> None
           | Some i \<Rightarrow> if i < length xs then Some (xs ! i) else None)"
| "own_property v k = None"

text \<open>\<open>k in v\<close>, for an object or array \<open>v\<close>: an own key, or one found on the prototype chain.\<close>

definition has_property :: "host \<Rightarrow> jsval \<Rightarrow> string \<Rightarrow> bool" where
  "has_property h v k = (own_property v k \<noteq> None \<or> inherited h v k \<noteq> None)"

text \<open>\<open>v[k]\<close>, for an object or array \<open>v\<close>: own before inherited, \<open>undefined\<close> when neither.\<close>

definition get_property :: "host \<Rightarrow> jsval \<Rightarrow> string \<Rightarrow> jsval" where
  "get_property h v k =
     (case own_property v k of
        Some x \<Rightarrow> x
      | None \<Rightarrow> (case inherited h v k of Some y \<Rightarrow> y | None \<Rightarrow> JUndefined))"

subsection \<open>Strings\<close>

text \<open>\<open>s.split(c)\<close> with a one-character separator: never empty, \<open>"".split(".")\<close> is \<open>[""]\<close>.\<close>

fun split_on :: "char \<Rightarrow> string \<Rightarrow> string list" where
  "split_on c [] = [[]]"
| "split_on c (x # xs) =
     (if x = c then [] # split_on c xs
      else (case split_on c xs of
              [] \<Rightarrow> [[x]]
            | p # ps \<Rightarrow> (x # p) # ps))"

definition endsWith :: "string \<Rightarrow> string \<Rightarrow> bool" where
  "endsWith s t = (length t \<le> length s \<and> drop (length s - length t) s = t)"

fun includes_sub :: "string \<Rightarrow> string \<Rightarrow> bool" where
  "includes_sub [] t = (t = [])"
| "includes_sub (x # xs) t = (take (length t) (x # xs) = t \<or> includes_sub xs t)"

section \<open>extractValue\<close>

text \<open>
  \<open>new Date(value).toLocaleString()\<close>. The constructor first turns an object into a
  primitive; an invalid date renders as the fixed text \<open>Invalid Date\<close>.
\<close>

definition newDate :: "host \<Rightarrow> jsval \<Rightarrow> thrown + int option" where
  "newDate h v =
     (if isPrimitive v then Inr (timeValue h v)
      else (case objToPrimitive h v of
              Inl e \<Rightarrow> Inl e
            | Inr p \<Rightarrow> Inr (timeValue h p)))"

definition toLocaleString :: "host \<Rightarrow> int option \<Rightarrow> string" where
  "toLocaleString h tv = (case tv of None \<Rightarrow> ''Invalid Date'' | Some t \<Rightarrow> localeFormat h t)"

text \<open>
  The loop over the path's parts. \<open>None\<close> is the early \<open>return undefined\<close> of the
  else-branch.
\<close>

fun walk :: "host \<Rightarrow> jsval \<Rightarrow> string list \<Rightarrow> jsval option" where
  "walk h v [] = Some v"
| "walk h v (part # parts) =
     (if truthy v \<and> typeof_object v \<and> has_property h v part
      then walk h (get_property h v part) parts
      else None)"

definition timestamp_rule :: "string \<Rightarrow> bool" where
  "timestamp_rule path = (endsWith path ''Timestamp'' \<or> includes_sub path ''creation'')"

definition extractValue :: "host \<Rightarrow> jsval \<Rightarrow> string \<Rightarrow> thrown + jsval" where
  "extractValue h obj path =
     (if \<not> truthy obj \<or> path = [] then Inr JUndefined
      else (case walk h obj (tl (split_on CHR ''.'' path)) of
              None \<Rightarrow> Inr JUndefined
            | Some v \<Rightarrow>
                if truthy v \<and> timestamp_rule path
                then (case newDate h v of
                        Inl e \<Rightarrow> Inl e
                      | Inr tv \<Rightarrow>
                          (let s = toLocaleString h tv
                           in Inr (if s \<noteq> [] then JStr s else v)))
                else Inr v))"

section \<open>Configuration\<close>

text \<open>
  \<open>parseInt(s, 10)\<close>: leading white space is skipped (the white space of ASCII, here), a
  sign is read, then the longest run of decimal digits; with no digit the result is NaN,
  which is \<open>None\<close> here.
\<close>

definition isWhiteSpace :: "char \<Rightarrow> bool" where
  "isWhiteSpace c = (of_char c \<in> {9, 10, 11, 12, 13, 32 :: nat})"

definition parseInt :: "string \<Rightarrow> int option" where
  "parseInt s =
     (let t = dropWhile isWhiteSpace s;
          negative = (t \<noteq> [] \<and> hd t = CHR ''-'');
          u = (if t \<noteq> [] \<and> (hd t = CHR ''-'' \<or> hd t = CHR ''+'') then tl t else t);
          ds = takeWhile (\<lambda>c. digit_val c \<noteq> None) u
      in if ds = [] then None
         else (case digits_val 0 ds of
                 None \<Rightarrow> None
               | Some n \<Rightarrow> Some (if negative then - int n else int n)))"

text \<open>
  What the module reads once when it is loaded: the environment variable
  \<open>CACHE_DURATION\<close> and the name of the kubeconfig's current cluster.
\<close>

record config =
  env_CACHE_DURATION :: "string option"
  currentClusterName :: "string option"

definition or_default :: "string option \<Rightarrow> string \<Rightarrow> string" where
  "or_default v d = (case v of None \<Rightarrow> d | Some s \<Rightarrow> if s = [] then d else s)"

definition CACHE_DURATION :: "config \<Rightarrow> int option" where
  "CACHE_DURATION cfg = parseInt (or_default (env_CACHE_DURATION cfg) ''1800'')"

definition resolveClusterName :: "config \<Rightarrow> string" where
  "resolveClusterName cfg = or_default (currentClusterName cfg) ''Unknown Cluster''"

section \<open>The cache store and the cluster API\<close>

datatype api_call =
    ListClusterCustomObject string string string
  | GetClusterCustomObject string string string string
  | ListCustomObjectForAllNamespaces string string string

text \<open>
  The state outside the module: the entries of the Redis store (a text and the time, in
  seconds, at which it expires), what the store will do to the commands still to come (one
  element per command, \<open>Some m\<close> when the command is to fail with the message \<open>m\<close>; a
  command past the end of the list is served), the calls made to the cluster API so far,
  and the lines written with \<open>console.warn\<close>. An operation is given the time \<open>now\<close>
  at which it is called, in seconds; an entry is live while \<open>now\<close> is before its
  expiry.
\<close>

record world =
  store :: "string \<Rightarrow> (string \<times> nat) option"
  store_faults :: "string option list"
  api_calls :: "api_call list"
  warnings :: "string list"

definition next_fault :: "world \<Rightarrow> string option \<times> world" where
  "next_fault w =
     (case store_faults w of
        [] \<Rightarrow> (None, w)
      | f # fs \<Rightarrow> (f, w\<lparr>store_faults := fs\<rparr>))"

definition live :: "nat \<Rightarrow> (string \<times> nat) option \<Rightarrow> string option" where
  "live now e =
     (case e of
        None \<Rightarrow> None
      | Some (text, expiry) \<Rightarrow> if now < expiry then Some text else None)"

definition redis_get :: "nat \<Rightarrow> string \<Rightarrow> world \<Rightarrow> (thrown + string option) \<times> world" where
  "redis_get now key w =
     (case next_fault w of
        (Some m, w') \<Rightarrow> (Inl (Error m), w')
      | (None, w') \<Rightarrow> (Inr (live now (store w' key)), w'))"

text \<open>
  \<open>SETEX key seconds value\<close> replaces whatever the key held, value and expiry both. Redis
  refuses a duration that is not a positive integer.
\<close>

definition redis_setEx ::
  "nat \<Rightarrow> string \<Rightarrow> int option \<Rightarrow> string \<Rightarrow> world \<Rightarrow> (thrown + unit) \<times> world" where
  "redis_setEx now key seconds text w =
     (case next_fault w of
        (Some m, w') \<Rightarrow> (Inl (Error m), w')
      | (None, w') \<Rightarrow>
          (case seconds of
             None \<Rightarrow> (Inl (Error ''ERR value is not an integer or out of range''), w')
           | Some n \<Rightarrow>
               if n \<le> 0 then (Inl (Error ''ERR invalid expire time in setex''), w')
               else (Inr (), w'\<lparr>store := (store w')(key := Some (text, now + nat n))\<rparr>)))"

definition redis_del :: "string \<Rightarrow> world \<Rightarrow> (thrown + unit) \<times> world" where
  "redis_del key w =
     (case next_fault w of
        (Some m, w') \<Rightarrow> (Inl (Error m), w')
      | (None, w') \<Rightarrow> (Inr (), w'\<lparr>store := (store w')(key := None)\<rparr>))"

text \<open>\<open>if (cachedData)\<close>: a missing entry and an empty text both count as a miss.\<close>

definition cache_hit :: "string option \<Rightarrow> string option" where
  "cache_hit cachedData =
     (case cachedData of None \<Rightarrow> None | Some t \<Rightarrow> if t = [] then None else Some t)"

text \<open>
  The cluster API answers each request with a value or a rejection: the listing of all CRDs,
  the CRD object of a given name, and the instances of a plural, cluster-wide or over all
  namespaces. \<open>None\<close> is a response without \<open>items\<close>.
\<close>

record cluster_api =
  crdListing :: "thrown + V1CustomResourceDefinition list option"
  crdObject :: "string \<Rightarrow> thrown + crdResponse"
  clusterObjects :: "string \<Rightarrow> thrown + jsval list option"
  namespacedObjects :: "string \<Rightarrow> thrown + jsval list option"

definition record_call :: "api_call \<Rightarrow> world \<Rightarrow> world" where
  "record_call c w = w\<lparr>api_calls := api_calls w @ [c]\<rparr>"

text \<open>\<open>if (err instanceof Error) console.warn(...)\<close>\<close>

definition warn_if_Error :: "(string \<Rightarrow> string) \<Rightarrow> thrown \<Rightarrow> world \<Rightarrow> world" where
  "warn_if_Error line err w =
     (case err of
        Error m \<Rightarrow> w\<lparr>warnings := warnings w @ [line m]\<rparr>
      | NonError v \<Rightarrow> w)"

section \<open>Column definitions\<close>

definition getColumnDefinitions ::
  "V1CustomResourceDefinitionVersion option \<Rightarrow> ColumnDefinition list" where
  "getColumnDefinitions versionInfo =
     (case versionInfo of
        None \<Rightarrow> []
      | Some v \<Rightarrow>
          (case additionalPrinterColumns v of
             None \<Rightarrow> []
           | Some cs \<Rightarrow>
               map (\<lambda>col. \<lparr>name = col_name col, description = col_description col,
                            jsonPath = col_jsonPath col, type = col_type col,
                            priority = col_priority col\<rparr>) cs))"

section \<open>listAllAquaSecurityCRDs\<close>

definition aqua_filter :: "V1CustomResourceDefinition \<Rightarrow> bool" where
  "aqua_filter crd = (spec_group crd = ''aquasecurity.github.io'' \<and> spec_scope crd \<noteq> ''Namespaced'')"

definition aqua_metadata :: "V1CustomResourceDefinition \<Rightarrow> CRDMetadata" where
  "aqua_metadata crd =
     (let versionInfo = find (\<lambda>v. version_name v = ''v1alpha1'') (spec_versions crd);
          cols = getColumnDefinitions versionInfo
      in \<lparr>group = ''aquasecurity.github.io'', plural = spec_names_plural crd,
          columns = cols, scope = spec_scope crd\<rparr>)"

text \<open>The body of the \<open>try\<close>.\<close>

definition fetchAquaSecurityCRDs ::
  "host \<Rightarrow> config \<Rightarrow> cluster_api \<Rightarrow> nat \<Rightarrow> world \<Rightarrow> (thrown + CRDMetadata list) \<times> world" where
  "fetchAquaSecurityCRDs h cfg api now w =
     (let w1 = record_call
                 (ListClusterCustomObject ''apiextensions.k8s.io'' ''v1'' ''customresourcedefinitions'') w
      in case crdListing api of
           Inl e \<Rightarrow> (Inl e, w1)
         | Inr response \<Rightarrow>
             (let items = (case response of None \<Rightarrow> [] | Some xs \<Rightarrow> xs);
                  crds = map aqua_metadata (filter aqua_filter items)
              in case redis_setEx now ''aqua_security_crds'' (CACHE_DURATION cfg)
                        (stringifyCRDs h crds) w1 of
                   (Inl e, w2) \<Rightarrow> (Inl e, w2)
                 | (Inr u, w2) \<Rightarrow> (Inr crds, w2)))"

definition listAllAquaSecurityCRDs ::
  "host \<Rightarrow> config \<Rightarrow> cluster_api \<Rightarrow> nat \<Rightarrow> world \<Rightarrow> (thrown + CRDMetadata list) \<times> world" where
  "listAllAquaSecurityCRDs h cfg api now w =
     (case redis_get now ''aqua_security_crds'' w of
        (Inl e, w1) \<Rightarrow> (Inl e, w1)
      | (Inr cachedData, w1) \<Rightarrow>
          (case cache_hit cachedData of
             Some text \<Rightarrow> (parseCRDs h text, w1)
           | None \<Rightarrow>
               (case fetchAquaSecurityCRDs h cfg api now w1 of
                  (Inl err, w2) \<Rightarrow> (Inr [], w2)
                | (Inr crds, w2) \<Rightarrow> (Inr crds, w2))))"

section \<open>loadReports\<close>

text \<open>
  \<open>item.metadata\<close>: reading a property of undefined or null throws a TypeError; any other
  value answers with the property or \<open>undefined\<close>.
\<close>

definition member :: "host \<Rightarrow> jsval \<Rightarrow> string \<Rightarrow> thrown + jsval" where
  "member h v k =
     (if v = JUndefined \<or> v = JNull then Inl (Error (typeErrorMessage h v k))
      else Inr (get_property h v k))"

text \<open>
  \<open>reportData[k] = v\<close> on the object the literal \<open>{ metadata: ... }\<close> created. An
  existing own key keeps its place and takes the new value. A new key that is an array index
  (a canonical decimal below \<open>2^32 - 1\<close>) goes among the index keys, which an object lists
  first and in ascending order; any other new key goes to the end. The list is the order in
  which the object enumerates its own keys.
\<close>

definition index_key :: "string \<Rightarrow> nat option" where
  "index_key k =
     (case array_index k of
        None \<Rightarrow> None
      | Some i \<Rightarrow> if i < 4294967295 then Some i else None)"

fun replace_value :: "string \<Rightarrow> jsval \<Rightarrow> (string \<times> jsval) list \<Rightarrow> (string \<times> jsval) list" where
  "replace_value k v [] = []"
| "replace_value k v (p # ps) = (if fst p = k then (k, v) # ps else p # replace_value k v ps)"

fun insert_index ::
  "nat \<Rightarrow> string \<Rightarrow> jsval \<Rightarrow> (string \<times> jsval) list \<Rightarrow> (string \<times> jsval) list" where
  "insert_index i k v [] = [(k, v)]"
| "insert_index i k v (p # ps) =
     (case index_key (fst p) of
        None \<Rightarrow> (k, v) # p # ps
      | Some j \<Rightarrow> if j < i then p # insert_index i k v ps else (k, v) # p # ps)"

definition update_key :: "string \<Rightarrow> jsval \<Rightarrow> (string \<times> jsval) list \<Rightarrow> (string \<times> jsval) list" where
  "update_key k v props =
     (if k \<in> set (map fst props) then replace_value k v props
      else (case index_key k of
              None \<Rightarrow> props @ [(k, v)]
            | Some i \<Rightarrow> insert_index i k v props))"

text \<open>
  The key \<open>__proto__\<close> is the one exception: while the object still inherits the
  prototype setter the assignment goes to that setter and creates no own property, and a
  null value there removes the prototype, setter included. The Boolean beside the properties
  says whether the setter is still inherited.
\<close>

definition assign ::
  "string \<Rightarrow> jsval \<Rightarrow> (string \<times> jsval) list \<times> bool \<Rightarrow> (string \<times> jsval) list \<times> bool" where
  "assign k v reportData =
     (case reportData of (props, setter) \<Rightarrow>
        if k = ''__proto__'' \<and> setter then (props, v \<noteq> JNull)
        else (update_key k v props, setter))"

text \<open>\<open>columns.forEach\<close>: a column whose extraction throws ends the whole iteration.\<close>

fun assignColumns ::
  "host \<Rightarrow> jsval \<Rightarrow> ColumnDefinition list \<Rightarrow> (string \<times> jsval) list \<times> bool
     \<Rightarrow> thrown + (string \<times> jsval) list \<times> bool" where
  "assignColumns h item [] reportData = Inr reportData"
| "assignColumns h item (col # cols) reportData =
     (case extractValue h item (jsonPath col) of
        Inl e \<Rightarrow> Inl e
      | Inr v \<Rightarrow>
          assignColumns h item cols
            (assign (name col) (if v \<noteq> JUndefined then v else JNull) reportData))"

definition projectItem ::
  "host \<Rightarrow> ColumnDefinition list \<Rightarrow> jsval \<Rightarrow> thrown + (string \<times> jsval) list" where
  "projectItem h cols item =
     (case member h item ''metadata'' of
        Inl e \<Rightarrow> Inl e
      | Inr md \<Rightarrow>
          (case assignColumns h item cols
                  ([(''metadata'', if truthy md then md else JObj [])], True) of
             Inl e \<Rightarrow> Inl e
           | Inr reportData \<Rightarrow> Inr (fst reportData)))"

text \<open>\<open>items.map\<close>, left to right, ended by the first item that throws.\<close>

fun projectItems ::
  "host \<Rightarrow> ColumnDefinition list \<Rightarrow> jsval list \<Rightarrow> thrown + (string \<times> jsval) list list" where
  "projectItems h cols [] = Inr []"
| "projectItems h cols (item # items) =
     (case projectItem h cols item of
        Inl e \<Rightarrow> Inl e
      | Inr r \<Rightarrow>
          (case projectItems h cols items of
             Inl e \<Rightarrow> Inl e
           | Inr rs \<Rightarrow> Inr (r # rs)))"

definition defaultColumns :: "ColumnDefinition list" where
  "defaultColumns =
     [\<lparr>name = ''Name'', description = None, jsonPath = ''.metadata.name'',
       type = ''string'', priority = None\<rparr>,
      \<lparr>name = ''Age'', description = None, jsonPath = ''.metadata.creationTimestamp'',
       type = ''date'', priority = None\<rparr>]"

text \<open>The two inner \<open>try\<close> blocks: a listing that fails leaves no items.\<close>

definition listInstances :: "cluster_api \<Rightarrow> string \<Rightarrow> string \<Rightarrow> world \<Rightarrow> jsval list \<times> world" where
  "listInstances api scp crdPlural w =
     (if scp = ''Namespaced''
      then (let w1 = record_call
                       (ListCustomObjectForAllNamespaces ''aquasecurity.github.io'' ''v1alpha1'' crdPlural) w
            in case namespacedObjects api crdPlural of
                 Inr result \<Rightarrow> ((case result of None \<Rightarrow> [] | Some xs \<Rightarrow> xs), w1)
               | Inl listErr \<Rightarrow>
                   ([], warn_if_Error
                          (\<lambda>m. ''Warning: Could not list namespaced instances of '' @ crdPlural @ '': '' @ m)
                          listErr w1))
      else (let w1 = record_call
                       (ListClusterCustomObject ''aquasecurity.github.io'' ''v1alpha1'' crdPlural) w
            in case clusterObjects api crdPlural of
                 Inr result \<Rightarrow> ((case result of None \<Rightarrow> [] | Some xs \<Rightarrow> xs), w1)
               | Inl listErr \<Rightarrow>
                   ([], warn_if_Error
                          (\<lambda>m. ''Warning: Could not list cluster instances of '' @ crdPlural @ '': '' @ m)
                          listErr w1)))"

text \<open>The body of the outer \<open>try\<close>.\<close>

definition fetchReports ::
  "host \<Rightarrow> config \<Rightarrow> cluster_api \<Rightarrow> nat \<Rightarrow> string \<Rightarrow> world \<Rightarrow> (thrown + ReportsData) \<times> world" where
  "fetchReports h cfg api now crdPlural w =
     (let crdName = crdPlural @ ''.aquasecurity.github.io'';
          w1 = record_call
                 (GetClusterCustomObject ''apiextensions.k8s.io'' ''v1'' ''customresourcedefinitions'' crdName) w
      in case crdObject api crdName of
           Inl e \<Rightarrow> (Inl e, w1)
         | Inr response \<Rightarrow>
             (case spec response of
                None \<Rightarrow> (Inl (Error (''CRD '' @ crdName @ '' did not return a valid spec'')), w1)
              | Some sp \<Rightarrow>
                  (case find (\<lambda>v. version_name v = ''v1alpha1'') (versions sp) of
                     None \<Rightarrow> (Inl (Error (''No v1alpha1 version found for '' @ crdName)), w1)
                   | Some versionInfo \<Rightarrow>
                       (let cols0 = getColumnDefinitions (Some versionInfo);
                            cols = (if length cols0 = 0 then defaultColumns else cols0);
                            scp = or_default (crd_scope sp) ''Cluster'';
                            (items, w2) = listInstances api scp crdPlural w1
                        in case projectItems h cols items of
                             Inl e \<Rightarrow> (Inl e, w2)
                           | Inr filteredReports \<Rightarrow>
                               (let d = \<lparr>manifests = filteredReports,
                                         clusterName = resolveClusterName cfg,
                                         scope = scp, error = None,
                                         resource = Some crdPlural\<rparr>
                                in case redis_setEx now (''reports:'' @ crdPlural)
                                          (CACHE_DURATION cfg) (stringifyReports h d) w2 of
                                     (Inl e, w3) \<Rightarrow> (Inl e, w3)
                                   | (Inr u, w3) \<Rightarrow> (Inr d, w3))))))"

text \<open>\<open>err instanceof Error ? err.message : 'Unknown error'\<close>\<close>

definition failure_message :: "thrown \<Rightarrow> string" where
  "failure_message err = (case err of Error m \<Rightarrow> m | NonError v \<Rightarrow> ''Unknown error'')"

definition errorPayload :: "thrown \<Rightarrow> string \<Rightarrow> ReportsData" where
  "errorPayload err crdPlural =
     \<lparr>manifests = [], clusterName = ''Unknown Cluster'', scope = ''Unknown'',
      error = Some (failure_message err), resource = Some crdPlural\<rparr>"

definition loadReports ::
  "host \<Rightarrow> config \<Rightarrow> cluster_api \<Rightarrow> nat \<Rightarrow> string \<Rightarrow> world \<Rightarrow> (thrown + ReportsData) \<times> world" where
  "loadReports h cfg api now crdPlural w =
     (case redis_get now (''reports:'' @ crdPlural) w of
        (Inl e, w1) \<Rightarrow> (Inl e, w1)
      | (Inr cachedData, w1) \<Rightarrow>
          (case cache_hit cachedData of
             Some text \<Rightarrow> (parseReports h text, w1)
           | None \<Rightarrow>
               (case fetchReports h cfg api now crdPlural w1 of
                  (Inr d, w2) \<Rightarrow> (Inr d, w2)
                | (Inl err, w2) \<Rightarrow>
                    (let d = errorPayload err crdPlural
                     in case redis_setEx now (''reports:'' @ crdPlural)
                               (CACHE_DURATION cfg) (stringifyReports h d) w2 of
                          (Inl e, w3) \<Rightarrow> (Inl e, w3)
                        | (Inr u, w3) \<Rightarrow> (Inr d, w3)))))"

definition invalidateCache :: "string \<Rightarrow> world \<Rightarrow> (thrown + unit) \<times> world" where
  "invalidateCache crdPlural w = redis_del (''reports:'' @ crdPlural) w"

section \<open>The in-process variant of loadReports\<close>

text \<open>
  The second module keeps its cache in a map of the process, keyed by the plural itself, and
  stamps each entry with the time of the call in milliseconds. Its payload has the fields
  \<open>reports\<close>, \<open>error\<close> (what \<open>err.message\<close> was, when something was caught) and
  \<open>clusterName\<close>. On a miss it loads the kube configuration before it enters the
  \<open>try\<close>; the configuration record stands for what that loading yields, the name of
  the current cluster if there is one.
\<close>

record simpleData =
  reports :: "jsval list"
  caught_message :: "jsval option"
  cluster :: string

record CacheEntry =
  data :: simpleData
  timestamp :: int

record process_state =
  cache :: "string \<Rightarrow> CacheEntry option"
  cluster_calls :: "api_call list"

definition CACHE_DURATION_ms :: int where
  "CACHE_DURATION_ms = 5 * 60 * 1000"

text \<open>
  What the \<open>catch\<close> block does with \<open>err.message\<close> before it builds its payload: it
  reads the property, which throws a TypeError when what was caught is null or undefined,
  and it puts the value into the template literal of the log line, which turns it into a
  string and so throws when the value is an object that cannot be turned into a primitive.
  Only whether that conversion throws matters here. The result is the value of
  \<open>err.message\<close>.
\<close>

definition caught_err_message :: "host \<Rightarrow> thrown \<Rightarrow> thrown + jsval" where
  "caught_err_message h err =
     (case err of
        Error m \<Rightarrow> Inr (JStr m)
      | NonError v \<Rightarrow>
          (case member h v ''message'' of
             Inl e \<Rightarrow> Inl e
           | Inr msg \<Rightarrow>
               if isPrimitive msg then Inr msg
               else (case objToPrimitive h msg of
                       Inl e \<Rightarrow> Inl e
                     | Inr s \<Rightarrow> Inr msg)))"

definition cached_entry :: "int \<Rightarrow> CacheEntry option \<Rightarrow> simpleData option" where
  "cached_entry now e =
     (case e of
        None \<Rightarrow> None
      | Some c \<Rightarrow> if now - timestamp c < CACHE_DURATION_ms then Some (data c) else None)"

text \<open>
  An error thrown inside the \<open>catch\<close> block leaves the function with nothing written to
  the cache.
\<close>

definition loadReports_inProcess ::
  "host \<Rightarrow> config \<Rightarrow> cluster_api \<Rightarrow> int \<Rightarrow> string \<Rightarrow> process_state
     \<Rightarrow> (thrown + simpleData) \<times> process_state" where
  "loadReports_inProcess h cfg api now crdPlural st =
     (case cached_entry now (cache st crdPlural) of
        Some d \<Rightarrow> (Inr d, st)
      | None \<Rightarrow>
          (let st1 = st\<lparr>cluster_calls := cluster_calls st @
                        [ListCustomObjectForAllNamespaces ''aquasecurity.github.io'' ''v1alpha1'' crdPlural]\<rparr>
           in case namespacedObjects api crdPlural of
                Inr result \<Rightarrow>
                  (let d = \<lparr>reports = (case result of None \<Rightarrow> [] | Some xs \<Rightarrow> xs),
                            caught_message = None, cluster = resolveClusterName cfg\<rparr>
                   in (Inr d, st1\<lparr>cache := (cache st1)(crdPlural :=
                                   Some \<lparr>data = d, timestamp = now\<rparr>)\<rparr>))
              | Inl err \<Rightarrow>
                  (case caught_err_message h err of
                     Inl e \<Rightarrow> (Inl e, st1)
                   | Inr msg \<Rightarrow>
                       (let d = \<lparr>reports = [], caught_message = Some msg,
                                 cluster = resolveClusterName cfg\<rparr>
                        in (Inr d, st1\<lparr>cache := (cache st1)(crdPlural :=
                                        Some \<lparr>data = d, timestamp = now\<rparr>)\<rparr>)))))"

section \<open>Notions used to state the properties\<close>

text \<open>The parts of a path that are walked: what follows the first dot, cut at the dots.\<close>

definition segments :: "string \<Rightarrow> string list" where
  "segments path = tl (split_on CHR ''.'' path)"

text \<open>
  Resolution of a list of segments where a segment is found only as a direct (own) key of an
  object or array.
\<close>

fun resolve_direct :: "jsval \<Rightarrow> string list \<Rightarrow> jsval option" where
  "resolve_direct v [] = Some v"
| "resolve_direct v (k # ks) =
     (case own_property v k of None \<Rightarrow> None | Some x \<Rightarrow> resolve_direct x ks)"

text \<open>
  Resolution where a segment is found as an own key or as a key inherited through the
  prototype chain, which is what the \<open>in\<close> operator decides.
\<close>

fun is_object :: "jsval \<Rightarrow> bool" where
  "is_object (JObj kvs) = True"
| "is_object (JArr xs) = True"
| "is_object v = False"

definition property :: "host \<Rightarrow> jsval \<Rightarrow> string \<Rightarrow> jsval option" where
  "property h v k =
     (if is_object v
      then (case own_property v k of Some x \<Rightarrow> Some x | None \<Rightarrow> inherited h v k)
      else None)"

fun resolve :: "host \<Rightarrow> jsval \<Rightarrow> string list \<Rightarrow> jsval option" where
  "resolve h v [] = Some v"
| "resolve h v (k # ks) =
     (case property h v k of None \<Rightarrow> None | Some x \<Rightarrow> resolve h x ks)"

text \<open>
  A host to evaluate examples on. Objects inherit \<open>constructor\<close>, \<open>toString\<close> and
  \<open>valueOf\<close>; an object with an own \<open>toString\<close> property, which in parsed JSON is
  never a function, cannot be turned into a primitive; one ISO date is parsed, and rendered
  the way the en-US locale renders it in UTC; and the JSON functions are exact on the one
  payload the examples store.
\<close>

definition notFoundPayload :: ReportsData where
  "notFoundPayload = errorPayload (Error ''not found'') ''vulnerabilityreports''"

definition notFoundText :: string where
  \<open>notFoundText = ''{"manifests":[],"clusterName":"Unknown Cluster","scope":"Unknown","error":"not found","resource":"vulnerabilityreports"}''\<close>

definition sampleHost :: host where
  "sampleHost =
     \<lparr>inherited = (\<lambda>v k. if k = ''constructor''
                           then Some (JFunction (case v of JArr xs \<Rightarrow> ''Array'' | _ \<Rightarrow> ''Object''))
                           else if k = ''toString'' \<or> k = ''valueOf'' then Some (JFunction k)
                           else None),
      objToPrimitive = (\<lambda>v. case v of
                           JObj kvs \<Rightarrow>
                             if map_of kvs ''toString'' = None then Inr (JStr ''[object Object]'')
                             else Inl (Error ''Cannot convert object to primitive value'')
                         | _ \<Rightarrow> Inr (JStr [])),
      timeValue = (\<lambda>v. if v = JStr ''2024-05-01T10:00:00Z'' then Some 1714557600000 else None),
      localeFormat = (\<lambda>t. if t = 1714557600000 then ''5/1/2024, 10:00:00 AM''
                           else ''1/1/1970, 12:00:00 AM''),
      typeErrorMessage = (\<lambda>v k. ''Cannot read properties of ''
                                  @ (if v = JNull then ''null'' else ''undefined'')
                                  @ '' (reading '' @ k @ '')''),
      stringifyReports = (\<lambda>d. if d = notFoundPayload then notFoundText else ''{}''),
      parseReports = (\<lambda>t. if t = notFoundText then Inr notFoundPayload
                           else Inl (Error ''Unexpected token'')),
      stringifyCRDs = (\<lambda>cs. ''['' @ concat (map plural cs) @ '']''),
      parseCRDs = (\<lambda>t. Inl (Error ''Unexpected token''))\<rparr>"

text \<open>The store serves the next \<open>n\<close> commands: none of them is scheduled to fail.\<close>

definition served :: "nat \<Rightarrow> world \<Rightarrow> bool" where
  "served n w = list_all (\<lambda>f. f = None) (take n (store_faults w))"

text \<open>The world once \<open>n\<close> store commands have consumed their place in the schedule.\<close>

definition drop_faults :: "nat \<Rightarrow> world \<Rightarrow> world" where
  "drop_faults n w = w\<lparr>store_faults := drop n (store_faults w)\<rparr>"

text \<open>At time \<open>now\<close> the store holds no live, non-empty text under the key.\<close>

definition cache_miss :: "nat \<Rightarrow> string \<Rightarrow> world \<Rightarrow> bool" where
  "cache_miss now key w = (cache_hit (live now (store w key)) = None)"

text \<open>
  Schema resolution fails when the lookup of the CRD object is rejected, when the object
  has no \<open>spec\<close>, or when the spec lists no version named \<open>v1alpha1\<close>; the value is
  what is then thrown.
\<close>

definition schema_failure :: "cluster_api \<Rightarrow> string \<Rightarrow> thrown option" where
  "schema_failure api p =
     (let crdName = p @ ''.aquasecurity.github.io''
      in case crdObject api crdName of
           Inl e \<Rightarrow> Some e
         | Inr r \<Rightarrow>
             (case spec r of
                None \<Rightarrow> Some (Error (''CRD '' @ crdName @ '' did not return a valid spec''))
              | Some sp \<Rightarrow>
                  if list_ex (\<lambda>v. version_name v = ''v1alpha1'') (versions sp) then None
                  else Some (Error (''No v1alpha1 version found for '' @ crdName))))"

text \<open>Worlds, a configuration and cluster APIs to evaluate examples on.\<close>

definition emptyWorld :: world where
  "emptyWorld = \<lparr>store = (\<lambda>k. None), store_faults = [], api_calls = [], warnings = []\<rparr>"

definition defaultConfig :: config where
  "defaultConfig = \<lparr>env_CACHE_DURATION = None, currentClusterName = Some ''prod''\<rparr>"

definition brokenApi :: cluster_api where
  "brokenApi =
     \<lparr>crdListing = Inl (Error ''503 Service Unavailable''),
      crdObject = (\<lambda>n. Inl (Error ''not found'')),
      clusterObjects = (\<lambda>p. Inl (Error ''503 Service Unavailable'')),
      namespacedObjects = (\<lambda>p. Inl (Error ''503 Service Unavailable''))\<rparr>"

definition sampleCRD :: crdResponse where
  "sampleCRD =
     \<lparr>spec = Some \<lparr>versions = [\<lparr>version_name = ''v1alpha1'', additionalPrinterColumns = None\<rparr>],
                    crd_scope = Some ''Namespaced''\<rparr>\<rparr>"

definition sampleItem :: jsval where
  "sampleItem =
     JObj [(''metadata'', JObj [(''name'', JStr ''r1''),
                                (''creationTimestamp'', JStr ''2024-05-01T10:00:00Z'')])]"

definition sampleApi :: cluster_api where
  "sampleApi =
     \<lparr>crdListing = Inr (Some
        [\<lparr>metadata_name = ''clustervulnerabilityreports.aquasecurity.github.io'',
          spec_group = ''aquasecurity.github.io'', spec_scope = ''Cluster'',
          spec_names_plural = ''clustervulnerabilityreports'',
          spec_versions = [\<lparr>version_name = ''v1alpha1'', additionalPrinterColumns = None\<rparr>]\<rparr>,
         \<lparr>metadata_name = ''vulnerabilityreports.aquasecurity.github.io'',
          spec_group = ''aquasecurity.github.io'', spec_scope = ''Namespaced'',
          spec_names_plural = ''vulnerabilityreports'',
          spec_versions = [\<lparr>version_name = ''v1alpha1'', additionalPrinterColumns = None\<rparr>]\<rparr>]),
      crdObject = (\<lambda>n. if n = ''vulnerabilityreports.aquasecurity.github.io''
                         then Inr sampleCRD else Inl (Error ''not found'')),
      clusterObjects = (\<lambda>p. Inl (Error ''503 Service Unavailable'')),
      namespacedObjects = (\<lambda>p. Inr (Some [sampleItem]))\<rparr>"

definition flakyWorld :: world where
  "flakyWorld = \<lparr>store = (\<lambda>k. None), store_faults = [None, Some ''READONLY'', None],
                  api_calls = [], warnings = []\<rparr>"

definition downWorld :: world where
  "downWorld = \<lparr>store = (\<lambda>k. None), store_faults = [Some ''The client is closed''],
                 api_calls = [], warnings = []\<rparr>"

definition listingDownApi :: cluster_api where
  "listingDownApi =
     \<lparr>crdListing = Inl (Error ''503 Service Unavailable''),
      crdObject = (\<lambda>n. if n = ''vulnerabilityreports.aquasecurity.github.io''
                         then Inr sampleCRD else Inl (Error ''not found'')),
      clusterObjects = (\<lambda>p. Inl (Error ''503 Service Unavailable'')),
      namespacedObjects = (\<lambda>p. Inl (Error ''503 Service Unavailable''))\<rparr>"

text \<open>The scope \<open>loadReports\<close> works with: the one the CRD states, \<open>Cluster\<close> when it states none.\<close>

definition stated_scope :: "crdSpec \<Rightarrow> string" where
  "stated_scope sp =
     (case crd_scope sp of None \<Rightarrow> ''Cluster'' | Some s \<Rightarrow> if s = [] then ''Cluster'' else s)"

text \<open>The answer of the listing call that \<open>loadReports\<close> issues for a scope.\<close>

definition instance_listing :: "cluster_api \<Rightarrow> string \<Rightarrow> string \<Rightarrow> thrown + jsval list option" where
  "instance_listing api scp p =
     (if scp = ''Namespaced'' then namespacedObjects api p else clusterObjects api p)"


text \<open>The invariant on the scope of a payload.\<close>

definition scope_ok :: "ReportsData \<Rightarrow> bool" where
  "scope_ok d =
     ((ReportsData.scope d = ''Cluster'' \<or> ReportsData.scope d = ''Namespaced''
         \<or> ReportsData.scope d = ''Unknown'')
      \<and> (ReportsData.scope d = ''Unknown'' \<longrightarrow> error d \<noteq> None))"

text \<open>
  The cluster states the scope of a CRD, when it states one, as \<open>Cluster\<close> or
  \<open>Namespaced\<close>: the two values the Kubernetes API admits.
\<close>

definition known_scope :: "cluster_api \<Rightarrow> string \<Rightarrow> bool" where
  "known_scope api p =
     (case crdObject api (p @ ''.aquasecurity.github.io'') of
        Inl e \<Rightarrow> True
      | Inr r \<Rightarrow>
          (case spec r of
             None \<Rightarrow> True
           | Some sp \<Rightarrow>
               (case crd_scope sp of
                  None \<Rightarrow> True
                | Some s \<Rightarrow> s = [] \<or> s = ''Cluster'' \<or> s = ''Namespaced'')))"

text \<open>A process that has cached nothing, and a cluster whose calls are rejected with null.\<close>

definition emptyProcess :: process_state where
  "emptyProcess = \<lparr>cache = (\<lambda>k. None), cluster_calls = []\<rparr>"

definition nullRejectionApi :: cluster_api where
  "nullRejectionApi =
     \<lparr>crdListing = Inl (NonError JNull),
      crdObject = (\<lambda>n. Inl (NonError JNull)),
      clusterObjects = (\<lambda>p. Inl (NonError JNull)),
      namespacedObjects = (\<lambda>p. Inl (NonError JNull))\<rparr>"

text \<open>
  The columns \<open>loadReports\<close> projects with, the declared printer columns of \<open>v1alpha1\<close>
  or else the two default columns, and the instances it projects, those of the listing call
  or none when that call is rejected or answers without \<open>items\<close>.
\<close>

definition report_columns :: "crdSpec \<Rightarrow> ColumnDefinition list" where
  "report_columns sp =
     (let cs = getColumnDefinitions (find (\<lambda>v. version_name v = ''v1alpha1'') (versions sp))
      in if cs = [] then defaultColumns else cs)"

definition fetched_items :: "cluster_api \<Rightarrow> crdSpec \<Rightarrow> string \<Rightarrow> jsval list" where
  "fetched_items api sp p =
     (case instance_listing api (stated_scope sp) p of
        Inl e \<Rightarrow> []
      | Inr result \<Rightarrow> (case result of None \<Rightarrow> [] | Some xs \<Rightarrow> xs))"


definition reportsSpec :: "string \<Rightarrow> V1CustomResourceColumnDefinition list option \<Rightarrow> crdSpec" where
  "reportsSpec scp pcs =
     \<lparr>versions = [\<lparr>version_name = ''v1alpha1'', additionalPrinterColumns = pcs\<rparr>],
      crd_scope = Some scp\<rparr>"

definition reportsApi ::
  "string \<Rightarrow> V1CustomResourceColumnDefinition list option \<Rightarrow> jsval list \<Rightarrow> cluster_api" where
  "reportsApi scp pcs items =
     \<lparr>crdListing = Inl (Error ''503 Service Unavailable''),
      crdObject = (\<lambda>n. if n = ''vulnerabilityreports.aquasecurity.github.io''
                         then Inr \<lparr>spec = Some (reportsSpec scp pcs)\<rparr>
                         else Inl (Error ''not found'')),
      clusterObjects = (\<lambda>p. Inr (Some items)),
      namespacedObjects = (\<lambda>p. Inr (Some items))\<rparr>"

definition cachedWorld :: world where
  "cachedWorld =
     \<lparr>store = (\<lambda>k. None)(''reports:vulnerabilityreports'' \<mapsto> (notFoundText, 1900)),
      store_faults = [], api_calls = [], warnings = []\<rparr>"



section \<open>extractValue: path resolution\<close>

lemma walk_resolve: "walk h v ks = resolve h v ks"
proof (induction ks arbitrary: v)
  case Nil
  show ?case by simp
next
  case (Cons k ks)
  show ?case
    by (cases v)
      (auto simp: property_def has_property_def get_property_def Cons.IH split: option.splits)
qed

lemma segments_creationTimestamp:
  "segments ''.metadata.creationTimestamp'' = [''metadata'', ''creationTimestamp'']"
  by (simp add: segments_def)

lemma timestamp_rule_creationTimestamp: "timestamp_rule ''.metadata.creationTimestamp''"
  by (simp add: timestamp_rule_def endsWith_def)

text \<open>
  C2, as the code has it. For every value and every path: when some segment after the first
  dot is not found, a segment being found when the value reached is an object or an array
  that has it as an own or an inherited key, the result is \<open>undefined\<close>; when every
  segment is found, the record is truthy and the path is not empty, the result is the exact
  nested value, unless that value is truthy and the path falls under the timestamp rule; a
  falsy record or an empty path gives \<open>undefined\<close>; and the function does not throw
  when the path is outside the timestamp rule or the value found is a primitive.
\<close>

theorem extractValue_path:
  "(resolve h obj (segments path) = None \<longrightarrow> extractValue h obj path = Inr JUndefined)
   \<and> (\<forall>v. truthy obj \<and> path \<noteq> [] \<and> resolve h obj (segments path) = Some v
          \<and> \<not> (truthy v \<and> timestamp_rule path) \<longrightarrow> extractValue h obj path = Inr v)
   \<and> (\<not> truthy obj \<or> path = [] \<longrightarrow> extractValue h obj path = Inr JUndefined)
   \<and> (\<not> timestamp_rule path \<or> (\<forall>v. resolve h obj (segments path) = Some v \<longrightarrow> isPrimitive v)
        \<longrightarrow> (\<exists>r. extractValue h obj path = Inr r))"
  by (auto simp: extractValue_def segments_def walk_resolve newDate_def Let_def
      split: option.splits)

theorem extractValue_path_witness:
  "resolve sampleHost (JObj [(''metadata'', JObj [(''name'', JStr ''r1'')])])
       (segments ''.metadata.name'') = Some (JStr ''r1'')
   \<and> extractValue sampleHost (JObj [(''metadata'', JObj [(''name'', JStr ''r1'')])])
        ''.metadata.name'' = Inr (JStr ''r1'')
   \<and> resolve sampleHost (JObj [(''metadata'', JObj [(''name'', JStr ''r1'')])])
        (segments ''.spec.name'') = None
   \<and> extractValue sampleHost (JObj [(''metadata'', JObj [(''name'', JStr ''r1'')])])
        ''.spec.name'' = Inr JUndefined
   \<and> extractValue sampleHost JNull ''.metadata.name'' = Inr JUndefined"
proof -
  let ?obj = "JObj [(''metadata'', JObj [(''name'', JStr ''r1'')])]"
  have s1: "segments ''.metadata.name'' = [''metadata'', ''name'']"
    by (simp add: segments_def)
  have s2: "segments ''.spec.name'' = [''spec'', ''name'']"
    by (simp add: segments_def)
  have nt: "\<not> timestamp_rule ''.metadata.name''"
    by (simp add: timestamp_rule_def endsWith_def)
  have r1: "resolve sampleHost ?obj (segments ''.metadata.name'') = Some (JStr ''r1'')"
    by (simp add: s1 property_def)
  have r2: "resolve sampleHost ?obj (segments ''.spec.name'') = None"
    by (simp add: s2 property_def sampleHost_def)
  from extractValue_path [of sampleHost ?obj "''.metadata.name''"] r1 nt
  have e1: "extractValue sampleHost ?obj ''.metadata.name'' = Inr (JStr ''r1'')"
    by simp
  from extractValue_path [of sampleHost ?obj "''.spec.name''"] r2
  have e2: "extractValue sampleHost ?obj ''.spec.name'' = Inr JUndefined"
    by simp
  from extractValue_path [of sampleHost JNull "''.metadata.name''"]
  have e3: "extractValue sampleHost JNull ''.metadata.name'' = Inr JUndefined"
    by simp
  from r1 e1 r2 e2 e3 show ?thesis by simp
qed

text \<open>
  C2 as stated fails. On the path of the default Age column every segment is a direct key of
  the record, and the result is the locale rendering, not the nested value. And
  \<open>constructor\<close> is no direct key of an empty object, yet the result is not
  \<open>undefined\<close>: the \<open>in\<close> operator finds the inherited function.
\<close>

theorem extractValue_reformats_counterexample:
  "resolve_direct
       (JObj [(''metadata'', JObj [(''creationTimestamp'', JStr ''2024-05-01T10:00:00Z'')])])
       (segments ''.metadata.creationTimestamp'') = Some (JStr ''2024-05-01T10:00:00Z'')
   \<and> extractValue sampleHost
        (JObj [(''metadata'', JObj [(''creationTimestamp'', JStr ''2024-05-01T10:00:00Z'')])])
        ''.metadata.creationTimestamp'' = Inr (JStr ''5/1/2024, 10:00:00 AM'')
   \<and> resolve_direct (JObj [(''metadata'', JObj [])]) (segments ''.metadata.constructor'') = None
   \<and> extractValue sampleHost (JObj [(''metadata'', JObj [])]) ''.metadata.constructor''
       = Inr (JFunction ''Object'')"
proof -
  have s: "segments ''.metadata.constructor'' = [''metadata'', ''constructor'']"
    by (simp add: segments_def)
  have t: "\<not> timestamp_rule ''.metadata.constructor''"
    by (simp add: timestamp_rule_def endsWith_def)
  have 1: "extractValue sampleHost
        (JObj [(''metadata'', JObj [(''creationTimestamp'', JStr ''2024-05-01T10:00:00Z'')])])
        ''.metadata.creationTimestamp'' = Inr (JStr ''5/1/2024, 10:00:00 AM'')"
    by (simp add: segments_creationTimestamp timestamp_rule_creationTimestamp extractValue_def
        segments_def[symmetric] walk_resolve property_def newDate_def toLocaleString_def
        sampleHost_def)
  have 2: "extractValue sampleHost (JObj [(''metadata'', JObj [])]) ''.metadata.constructor''
       = Inr (JFunction ''Object'')"
    by (simp add: s t extractValue_def segments_def[symmetric] walk_resolve property_def
        sampleHost_def)
  from 1 2 show ?thesis
    by (simp add: segments_creationTimestamp s)
qed

text \<open>
  The one way for the function to throw: the timestamp rule applied to an object that cannot
  be turned into a primitive.
\<close>

lemma extractValue_throws:
  "extractValue sampleHost
     (JObj [(''metadata'', JObj [(''creationTimestamp'', JObj [(''toString'', JNum 1)])])])
     ''.metadata.creationTimestamp'' = Inl (Error ''Cannot convert object to primitive value'')"
  by (simp add: segments_creationTimestamp timestamp_rule_creationTimestamp extractValue_def
      segments_def[symmetric] walk_resolve property_def newDate_def sampleHost_def)

section \<open>extractValue: the timestamp rule\<close>

text \<open>
  C3, the behaviour of the code on a value that is no date. When the timestamp rule applies
  and the value found is a truthy primitive that the host cannot read as a date, the result
  is the text \<open>Invalid Date\<close>, not the value found: the rendering of an invalid date is
  not empty, so the \<open>|| value\<close> of the source is never reached.
\<close>

theorem extractValue_invalid_date:
  assumes "truthy obj" and "path \<noteq> []" and "timestamp_rule path"
    and "walk h obj (tl (split_on CHR ''.'' path)) = Some v"
    and "truthy v" and "isPrimitive v" and "timeValue h v = None"
  shows "extractValue h obj path = Inr (JStr ''Invalid Date'')"
  using assms by (simp add: extractValue_def newDate_def toLocaleString_def)

theorem extractValue_invalid_date_witness:
  "timestamp_rule ''.metadata.creationTimestamp''
   \<and> timeValue sampleHost (JStr ''not-a-date'') = None
   \<and> extractValue sampleHost
        (JObj [(''metadata'', JObj [(''creationTimestamp'', JStr ''not-a-date'')])])
        ''.metadata.creationTimestamp'' = Inr (JStr ''Invalid Date'')
   \<and> JStr ''Invalid Date'' \<noteq> JStr ''not-a-date''"
  using extractValue_invalid_date [of
      "JObj [(''metadata'', JObj [(''creationTimestamp'', JStr ''not-a-date'')])]"
      "''.metadata.creationTimestamp''" sampleHost "JStr ''not-a-date''"]
  by (simp add: timestamp_rule_creationTimestamp has_property_def get_property_def
      sampleHost_def)

text \<open>
  The other half of the rule: a non-empty string that the host reads as a date comes back
  as a non-empty string, the locale rendering whenever that is not empty.
\<close>

lemma extractValue_valid_date:
  assumes "truthy obj" and "path \<noteq> []" and "timestamp_rule path"
    and "walk h obj (tl (split_on CHR ''.'' path)) = Some (JStr s)"
    and "s \<noteq> []" and "timeValue h (JStr s) = Some t"
  shows "\<exists>r. extractValue h obj path = Inr (JStr r) \<and> r \<noteq> []
          \<and> (localeFormat h t \<noteq> [] \<longrightarrow> r = localeFormat h t)"
  using assms by (auto simp: extractValue_def newDate_def toLocaleString_def Let_def)

section \<open>loadReports: the failure path\<close>

lemma CACHE_DURATION_default: "CACHE_DURATION defaultConfig = Some 1800"
  by (simp add: CACHE_DURATION_def defaultConfig_def or_default_def parseInt_def isWhiteSpace_def digit_val_def)

lemma next_fault_served:
  "served (Suc 0) w \<Longrightarrow> next_fault w = (None, drop_faults (Suc 0) w)"
  by (cases "store_faults w") (auto simp: served_def next_fault_def drop_faults_def)

lemma served_2_drop: "served 2 w \<Longrightarrow> served (Suc 0) (drop_faults (Suc 0) w)"
  by (cases "store_faults w") (auto simp: served_def drop_faults_def numeral_2_eq_2)

lemma served_2_1: "served 2 w \<Longrightarrow> served (Suc 0) w"
  by (cases "store_faults w") (auto simp: served_def numeral_2_eq_2)

lemma drop_faults_fields [simp]:
  "store (drop_faults n w) = store w"
  "api_calls (drop_faults n w) = api_calls w"
  "warnings (drop_faults n w) = warnings w"
  "store_faults (drop_faults n w) = drop n (store_faults w)"
  by (simp_all add: drop_faults_def)

lemma record_call_fields [simp]:
  "store (record_call c w) = store w"
  "api_calls (record_call c w) = api_calls w @ [c]"
  "warnings (record_call c w) = warnings w"
  "store_faults (record_call c w) = store_faults w"
  by (simp_all add: record_call_def)

lemma served_record_call [simp]: "served n (record_call c w) = served n w"
  by (simp add: served_def)

lemma redis_get_served:
  "served (Suc 0) w \<Longrightarrow>
   redis_get now key w = (Inr (live now (store w key)), drop_faults (Suc 0) w)"
  by (simp add: redis_get_def next_fault_served)

lemma redis_setEx_served:
  "served (Suc 0) w \<Longrightarrow> 0 < ttl \<Longrightarrow>
   redis_setEx now key (Some ttl) text w =
     (Inr (), (drop_faults (Suc 0) w)\<lparr>store := (store w)(key := Some (text, now + nat ttl))\<rparr>)"
  by (simp add: redis_setEx_def next_fault_served)

lemma list_ex_find: "list_ex P xs = (find P xs \<noteq> None)"
  by (auto simp: find_None_iff list_ex_iff)

lemma fetchReports_schema_failure:
  "schema_failure api p = Some err \<Longrightarrow>
   fetchReports h cfg api now p w =
     (Inl err, record_call (GetClusterCustomObject ''apiextensions.k8s.io'' ''v1''
                  ''customresourcedefinitions'' (p @ ''.aquasecurity.github.io'')) w)"
  by (auto simp: schema_failure_def fetchReports_def Let_def list_ex_find
      split: sum.splits option.splits if_splits)

lemma loadReports_caught:
  assumes "served (Suc 0) w" and "cache_miss now (''reports:'' @ p) w"
    and "fetchReports h cfg api now p (drop_faults (Suc 0) w) = (Inl err, w2)"
    and "served (Suc 0) w2" and "CACHE_DURATION cfg = Some ttl" and "0 < ttl"
  shows "loadReports h cfg api now p w =
           (Inr (errorPayload err p),
            (drop_faults (Suc 0) w2)\<lparr>store := (store w2)(''reports:'' @ p :=
               Some (stringifyReports h (errorPayload err p), now + nat ttl))\<rparr>)"
  using assms
  by (simp add: loadReports_def redis_get_served redis_setEx_served cache_miss_def Let_def)

text \<open>
  C1. On a cache miss, when schema resolution fails (the CRD lookup is rejected, the spec is
  missing, or no \<open>v1alpha1\<close> version is listed), and more generally when anything
  thrown inside the \<open>try\<close> is caught, \<open>loadReports\<close> returns exactly the payload
  with no manifests, cluster name \<open>Unknown Cluster\<close>, scope \<open>Unknown\<close>, the failure
  message as error and the plural as resource, and the store then holds the serialisation of
  that same payload under \<open>reports:<plural>\<close>, expiring \<open>CACHE_DURATION\<close> seconds
  after the call: the duration that successful results are stored with. The store is taken
  to serve the read and the write of the payload.
\<close>

theorem loadReports_failure_payload:
  "(served 2 w \<and> cache_miss now (''reports:'' @ p) w \<and> CACHE_DURATION cfg = Some ttl \<and> 0 < ttl
      \<and> schema_failure api p = Some err
    \<longrightarrow> (\<exists>w'. loadReports h cfg api now p w =
            (Inr \<lparr>manifests = [], clusterName = ''Unknown Cluster'', scope = ''Unknown'',
                  error = Some (failure_message err), resource = Some p\<rparr>, w')
          \<and> store w' (''reports:'' @ p) =
              Some (stringifyReports h
                      \<lparr>manifests = [], clusterName = ''Unknown Cluster'', scope = ''Unknown'',
                       error = Some (failure_message err), resource = Some p\<rparr>,
                    now + nat ttl)))
   \<and> (served 1 w \<and> cache_miss now (''reports:'' @ p) w \<and> CACHE_DURATION cfg = Some ttl \<and> 0 < ttl
      \<and> fetchReports h cfg api now p (drop_faults 1 w) = (Inl err, w2) \<and> served 1 w2
    \<longrightarrow> (\<exists>w'. loadReports h cfg api now p w =
            (Inr \<lparr>manifests = [], clusterName = ''Unknown Cluster'', scope = ''Unknown'',
                  error = Some (failure_message err), resource = Some p\<rparr>, w')
          \<and> store w' (''reports:'' @ p) =
              Some (stringifyReports h
                      \<lparr>manifests = [], clusterName = ''Unknown Cluster'', scope = ''Unknown'',
                       error = Some (failure_message err), resource = Some p\<rparr>,
                    now + nat ttl)))"
proof (intro conjI impI)
  assume a: "served 2 w \<and> cache_miss now (''reports:'' @ p) w \<and> CACHE_DURATION cfg = Some ttl
      \<and> 0 < ttl \<and> schema_failure api p = Some err"
  let ?c = "GetClusterCustomObject ''apiextensions.k8s.io'' ''v1''
              ''customresourcedefinitions'' (p @ ''.aquasecurity.github.io'')"
  have f: "fetchReports h cfg api now p (drop_faults (Suc 0) w) =
             (Inl err, record_call ?c (drop_faults (Suc 0) w))"
    using a by (simp add: fetchReports_schema_failure)
  have s: "served (Suc 0) (record_call ?c (drop_faults (Suc 0) w))"
    using a by (simp add: served_2_drop)
  have s1: "served (Suc 0) w"
    using a by (simp add: served_2_1)
  from loadReports_caught [OF s1 _ f s] a
  show "\<exists>w'. loadReports h cfg api now p w =
            (Inr \<lparr>manifests = [], clusterName = ''Unknown Cluster'', scope = ''Unknown'',
                  error = Some (failure_message err), resource = Some p\<rparr>, w')
          \<and> store w' (''reports:'' @ p) =
              Some (stringifyReports h
                      \<lparr>manifests = [], clusterName = ''Unknown Cluster'', scope = ''Unknown'',
                       error = Some (failure_message err), resource = Some p\<rparr>,
                    now + nat ttl)"
    by (simp add: errorPayload_def)
next
  assume b: "served 1 w \<and> cache_miss now (''reports:'' @ p) w \<and> CACHE_DURATION cfg = Some ttl
      \<and> 0 < ttl \<and> fetchReports h cfg api now p (drop_faults 1 w) = (Inl err, w2) \<and> served 1 w2"
  from b loadReports_caught [of w now p h cfg api err w2 ttl]
  show "\<exists>w'. loadReports h cfg api now p w =
            (Inr \<lparr>manifests = [], clusterName = ''Unknown Cluster'', scope = ''Unknown'',
                  error = Some (failure_message err), resource = Some p\<rparr>, w')
          \<and> store w' (''reports:'' @ p) =
              Some (stringifyReports h
                      \<lparr>manifests = [], clusterName = ''Unknown Cluster'', scope = ''Unknown'',
                       error = Some (failure_message err), resource = Some p\<rparr>,
                    now + nat ttl)"
    by (simp add: errorPayload_def)
qed

subsection \<open>The examples, evaluated\<close>

lemma stringify_notFound: "stringifyReports sampleHost notFoundPayload = notFoundText"
  by (simp add: sampleHost_def)

lemma notFoundText_nonempty: "notFoundText \<noteq> []"
  by (simp add: notFoundText_def)

lemma parse_notFound: "parseReports sampleHost notFoundText = Inr notFoundPayload"
  by (simp add: sampleHost_def)

lemma notFoundPayload_eq:
  "\<lparr>manifests = [], clusterName = ''Unknown Cluster'', scope = ''Unknown'',
    error = Some ''not found'', resource = Some ''vulnerabilityreports''\<rparr> = notFoundPayload"
  by (simp add: notFoundPayload_def errorPayload_def failure_message_def)

lemma served_emptyWorld: "served n emptyWorld"
  by (simp add: served_def emptyWorld_def)

lemma cache_miss_emptyWorld: "cache_miss now key emptyWorld"
  by (simp add: cache_miss_def emptyWorld_def live_def cache_hit_def)

lemma schema_failure_brokenApi:
  "schema_failure brokenApi p = Some (Error ''not found'')"
  by (simp add: schema_failure_def brokenApi_def)

lemma extract_name:
  "extractValue sampleHost sampleItem ''.metadata.name'' = Inr (JStr ''r1'')"
  by (simp add: extractValue_def sampleItem_def has_property_def get_property_def
      timestamp_rule_def endsWith_def)

lemma extract_age:
  "extractValue sampleHost sampleItem ''.metadata.creationTimestamp''
     = Inr (JStr ''5/1/2024, 10:00:00 AM'')"
  by (simp add: extractValue_def sampleItem_def has_property_def get_property_def
      timestamp_rule_def endsWith_def newDate_def toLocaleString_def sampleHost_def)

lemma member_sample:
  "member sampleHost sampleItem ''metadata'' =
     Inr (JObj [(''name'', JStr ''r1''), (''creationTimestamp'', JStr ''2024-05-01T10:00:00Z'')])"
  by (simp add: member_def sampleItem_def get_property_def)

lemma projectItem_sample:
  "projectItem sampleHost defaultColumns sampleItem =
     Inr [(''metadata'', JObj [(''name'', JStr ''r1''),
                               (''creationTimestamp'', JStr ''2024-05-01T10:00:00Z'')]),
          (''Name'', JStr ''r1''), (''Age'', JStr ''5/1/2024, 10:00:00 AM'')]"
  by (simp add: projectItem_def member_sample defaultColumns_def extract_name extract_age
      assign_def update_key_def index_key_def array_index_def digit_val_def)

lemma project_sample:
  "projectItems sampleHost defaultColumns [sampleItem] =
     Inr [[(''metadata'', JObj [(''name'', JStr ''r1''),
                                (''creationTimestamp'', JStr ''2024-05-01T10:00:00Z'')]),
           (''Name'', JStr ''r1''), (''Age'', JStr ''5/1/2024, 10:00:00 AM'')]]"
  by (simp add: projectItem_sample)

lemma fetch_flaky:
  "fetchReports sampleHost defaultConfig sampleApi 100 ''vulnerabilityreports''
      (drop_faults 1 flakyWorld) =
     (Inl (Error ''READONLY''),
      \<lparr>store = (\<lambda>k. None), store_faults = [None],
       api_calls = [GetClusterCustomObject ''apiextensions.k8s.io'' ''v1''
                      ''customresourcedefinitions'' ''vulnerabilityreports.aquasecurity.github.io'',
                    ListCustomObjectForAllNamespaces ''aquasecurity.github.io'' ''v1alpha1''
                      ''vulnerabilityreports''],
       warnings = []\<rparr>)"
  by (simp add: fetchReports_def sampleApi_def sampleCRD_def getColumnDefinitions_def
      or_default_def listInstances_def Let_def redis_setEx_def next_fault_def
      drop_faults_def flakyWorld_def record_call_def project_sample [simplified])

theorem loadReports_failure_payload_witness:
  "served 2 emptyWorld \<and> cache_miss 100 ''reports:vulnerabilityreports'' emptyWorld
   \<and> CACHE_DURATION defaultConfig = Some 1800
   \<and> schema_failure brokenApi ''vulnerabilityreports'' = Some (Error ''not found'')
   \<and> fst (loadReports sampleHost defaultConfig brokenApi 100 ''vulnerabilityreports'' emptyWorld)
       = Inr \<lparr>manifests = [], clusterName = ''Unknown Cluster'', scope = ''Unknown'',
              error = Some ''not found'', resource = Some ''vulnerabilityreports''\<rparr>
   \<and> store (snd (loadReports sampleHost defaultConfig brokenApi 100 ''vulnerabilityreports''
                  emptyWorld)) ''reports:vulnerabilityreports''
       = Some (notFoundText, 1900)
   \<and> served 1 flakyWorld
   \<and> fst (loadReports sampleHost defaultConfig sampleApi 100 ''vulnerabilityreports'' flakyWorld)
       = Inr \<lparr>manifests = [], clusterName = ''Unknown Cluster'', scope = ''Unknown'',
              error = Some ''READONLY'', resource = Some ''vulnerabilityreports''\<rparr>"
proof -
  have a: "served 2 emptyWorld \<and> cache_miss 100 (''reports:'' @ ''vulnerabilityreports'') emptyWorld
      \<and> CACHE_DURATION defaultConfig = Some 1800 \<and> (0::int) < 1800
      \<and> schema_failure brokenApi ''vulnerabilityreports'' = Some (Error ''not found'')"
    by (simp add: served_emptyWorld cache_miss_emptyWorld CACHE_DURATION_default
        schema_failure_brokenApi)
  have b: "served 1 flakyWorld
      \<and> cache_miss 100 (''reports:'' @ ''vulnerabilityreports'') flakyWorld
      \<and> CACHE_DURATION defaultConfig = Some 1800 \<and> (0::int) < 1800
      \<and> fetchReports sampleHost defaultConfig sampleApi 100 ''vulnerabilityreports''
            (drop_faults 1 flakyWorld) =
          (Inl (Error ''READONLY''),
           \<lparr>store = (\<lambda>k. None), store_faults = [None],
            api_calls = [GetClusterCustomObject ''apiextensions.k8s.io'' ''v1''
                      ''customresourcedefinitions'' ''vulnerabilityreports.aquasecurity.github.io'',
                    ListCustomObjectForAllNamespaces ''aquasecurity.github.io'' ''v1alpha1''
                      ''vulnerabilityreports''],
            warnings = []\<rparr>)
      \<and> served 1 \<lparr>store = (\<lambda>k. None), store_faults = [None],
            api_calls = [GetClusterCustomObject ''apiextensions.k8s.io'' ''v1''
                      ''customresourcedefinitions'' ''vulnerabilityreports.aquasecurity.github.io'',
                    ListCustomObjectForAllNamespaces ''aquasecurity.github.io'' ''v1alpha1''
                      ''vulnerabilityreports''],
            warnings = []\<rparr>"
    using fetch_flaky
    by (simp add: CACHE_DURATION_default served_def cache_miss_def live_def cache_hit_def)
      (simp add: flakyWorld_def)
  from loadReports_failure_payload [where w = emptyWorld and now = 100
      and p = "''vulnerabilityreports''" and cfg = defaultConfig and ttl = 1800
      and api = brokenApi and err = "Error ''not found''" and h = sampleHost] a
  have 1: "\<exists>w'. loadReports sampleHost defaultConfig brokenApi 100 ''vulnerabilityreports''
               emptyWorld =
            (Inr \<lparr>manifests = [], clusterName = ''Unknown Cluster'', scope = ''Unknown'',
                  error = Some ''not found'', resource = Some ''vulnerabilityreports''\<rparr>, w')
          \<and> store w' ''reports:vulnerabilityreports'' = Some (notFoundText, 1900)"
    by (simp add: failure_message_def notFoundPayload_eq stringify_notFound)
  from loadReports_failure_payload [where w = flakyWorld and now = 100
      and p = "''vulnerabilityreports''" and cfg = defaultConfig and ttl = 1800
      and api = sampleApi and err = "Error ''READONLY''" and h = sampleHost] b
  have 2: "\<exists>w'. loadReports sampleHost defaultConfig sampleApi 100 ''vulnerabilityreports''
               flakyWorld =
            (Inr \<lparr>manifests = [], clusterName = ''Unknown Cluster'', scope = ''Unknown'',
                  error = Some ''READONLY'', resource = Some ''vulnerabilityreports''\<rparr>, w')"
    by (simp add: failure_message_def) blast
  from 1 2 a b show ?thesis by auto
qed

section \<open>Failures of the cache store\<close>

lemma redis_get_fault:
  "store_faults w = Some m # fs \<Longrightarrow>
   redis_get now key w = (Inl (Error m), w\<lparr>store_faults := fs\<rparr>)"
  by (simp add: redis_get_def next_fault_def)

lemma redis_setEx_fault:
  "store_faults w = Some m # fs \<Longrightarrow>
   redis_setEx now key seconds text w = (Inl (Error m), w\<lparr>store_faults := fs\<rparr>)"
  by (simp add: redis_setEx_def next_fault_def)

lemma served_1_None: "store_faults w = None # fs \<Longrightarrow> served (Suc 0) w"
  by (simp add: served_def)

lemma drop_faults_1_Cons:
  "store_faults w = f # fs \<Longrightarrow> drop_faults (Suc 0) w = w\<lparr>store_faults := fs\<rparr>"
  by (simp add: drop_faults_def)

lemma fetchAquaSecurityCRDs_store:
  "store_faults w = Some m # fs \<Longrightarrow>
   fetchAquaSecurityCRDs h cfg api now w = (r, w') \<Longrightarrow> (\<exists>e. r = Inl e) \<and> store w' = store w"
  by (auto simp: fetchAquaSecurityCRDs_def Let_def redis_setEx_fault record_call_def
      split: sum.splits option.splits)

text \<open>
  C4, as the code has it. A store error on the first read of either operation is thrown to
  the caller, and nothing else happens: no call to the cluster API, no result object. So is
  the error of \<open>JSON.parse\<close> on a stored text that it rejects. A store error on the write
  makes \<open>listAllAquaSecurityCRDs\<close> return the empty list, whatever it had fetched, and
  leaves the store as it was; in \<open>loadReports\<close> a failed write of the error payload is
  thrown to the caller.
\<close>

theorem cache_store_errors:
  "(store_faults w = Some m # fs \<longrightarrow>
      listAllAquaSecurityCRDs h cfg api now w = (Inl (Error m), w\<lparr>store_faults := fs\<rparr>)
      \<and> loadReports h cfg api now p w = (Inl (Error m), w\<lparr>store_faults := fs\<rparr>))
   \<and> (served 1 w \<and> cache_hit (live now (store w ''aqua_security_crds'')) = Some cached
        \<and> parseCRDs h cached = Inl e \<longrightarrow>
      fst (listAllAquaSecurityCRDs h cfg api now w) = Inl e)
   \<and> (served 1 w \<and> cache_hit (live now (store w (''reports:'' @ p))) = Some cached
        \<and> parseReports h cached = Inl e \<longrightarrow>
      fst (loadReports h cfg api now p w) = Inl e)
   \<and> (store_faults w = None # Some m # fs \<and> cache_miss now ''aqua_security_crds'' w \<longrightarrow>
      fst (listAllAquaSecurityCRDs h cfg api now w) = Inr []
      \<and> store (snd (listAllAquaSecurityCRDs h cfg api now w)) = store w)
   \<and> (served 1 w \<and> cache_miss now (''reports:'' @ p) w
      \<and> fetchReports h cfg api now p (drop_faults 1 w) = (Inl err, w2)
      \<and> store_faults w2 = Some m # fs \<longrightarrow>
      loadReports h cfg api now p w = (Inl (Error m), w2\<lparr>store_faults := fs\<rparr>))"
proof -
  have 1: "listAllAquaSecurityCRDs h cfg api now w = (Inl (Error m), w\<lparr>store_faults := fs\<rparr>)
      \<and> loadReports h cfg api now p w = (Inl (Error m), w\<lparr>store_faults := fs\<rparr>)"
    if "store_faults w = Some m # fs"
    using that by (simp add: listAllAquaSecurityCRDs_def loadReports_def redis_get_fault)
  have 2: "fst (listAllAquaSecurityCRDs h cfg api now w) = Inl e"
    if "served 1 w \<and> cache_hit (live now (store w ''aqua_security_crds'')) = Some cached
        \<and> parseCRDs h cached = Inl e"
    using that by (simp add: listAllAquaSecurityCRDs_def redis_get_served)
  have 3: "fst (loadReports h cfg api now p w) = Inl e"
    if "served 1 w \<and> cache_hit (live now (store w (''reports:'' @ p))) = Some cached
        \<and> parseReports h cached = Inl e"
    using that by (simp add: loadReports_def redis_get_served)
  have 4: "fst (listAllAquaSecurityCRDs h cfg api now w) = Inr []
      \<and> store (snd (listAllAquaSecurityCRDs h cfg api now w)) = store w"
    if a: "store_faults w = None # Some m # fs \<and> cache_miss now ''aqua_security_crds'' w"
  proof -
    from a have g: "redis_get now ''aqua_security_crds'' w =
        (Inr (live now (store w ''aqua_security_crds'')), drop_faults (Suc 0) w)"
      by (simp add: redis_get_served served_1_None)
    have f: "store_faults (drop_faults (Suc 0) w) = Some m # fs"
      using a by simp
    obtain r w' where rw: "fetchAquaSecurityCRDs h cfg api now (drop_faults (Suc 0) w) = (r, w')"
      by (cases "fetchAquaSecurityCRDs h cfg api now (drop_faults (Suc 0) w)")
    from fetchAquaSecurityCRDs_store [OF f rw] obtain e' where "r = Inl e'" and "store w' = store w"
      by auto
    with a g rw show ?thesis
      by (simp add: listAllAquaSecurityCRDs_def cache_miss_def)
  qed
  have 5: "loadReports h cfg api now p w = (Inl (Error m), w2\<lparr>store_faults := fs\<rparr>)"
    if "served 1 w \<and> cache_miss now (''reports:'' @ p) w
      \<and> fetchReports h cfg api now p (drop_faults 1 w) = (Inl err, w2)
      \<and> store_faults w2 = Some m # fs"
    using that
    by (simp add: loadReports_def redis_get_served cache_miss_def Let_def redis_setEx_fault)
  from 1 2 3 4 5 show ?thesis
    by blast
qed

theorem cache_store_errors_witness:
  "store_faults downWorld = [Some ''The client is closed'']
   \<and> fst (loadReports sampleHost defaultConfig sampleApi 100 ''vulnerabilityreports'' downWorld)
       = Inl (Error ''The client is closed'')
   \<and> api_calls (snd (loadReports sampleHost defaultConfig sampleApi 100 ''vulnerabilityreports''
                       downWorld)) = []"
  using cache_store_errors [where w = downWorld and m = "''The client is closed''" and fs = "[]"
      and h = sampleHost and cfg = defaultConfig and api = sampleApi and now = 100
      and p = "''vulnerabilityreports''"]
  by (simp add: downWorld_def)

text \<open>
  C4 as stated fails: with the store refusing the read, \<open>listAllAquaSecurityCRDs\<close> returns
  no list; the store's error reaches the caller.
\<close>

theorem cache_error_propagates_counterexample:
  "fst (listAllAquaSecurityCRDs sampleHost defaultConfig sampleApi 100 downWorld)
     = Inl (Error ''The client is closed'')"
  by (simp add: listAllAquaSecurityCRDs_def redis_get_def next_fault_def downWorld_def)

section \<open>Discovery\<close>

text \<open>
  C5. On a cache miss, for every list of CRDs that the cluster API returns,
  \<open>listAllAquaSecurityCRDs\<close> returns the metadata of exactly those CRDs, in the order of
  the response, whose group is \<open>aquasecurity.github.io\<close> and whose scope is not
  \<open>Namespaced\<close>. The store is taken to serve the read and the write.
\<close>

theorem listAllAquaSecurityCRDs_filter:
  assumes "served 2 w" and "cache_miss now ''aqua_security_crds'' w"
    and "CACHE_DURATION cfg = Some ttl" and "0 < ttl"
    and "crdListing api = Inr (Some items)"
  shows "fst (listAllAquaSecurityCRDs h cfg api now w) =
     Inr (map (\<lambda>crd. \<lparr>group = ''aquasecurity.github.io'', plural = spec_names_plural crd,
                       columns = getColumnDefinitions
                         (find (\<lambda>v. version_name v = ''v1alpha1'') (spec_versions crd)),
                       scope = spec_scope crd\<rparr>)
            (filter (\<lambda>crd. spec_group crd = ''aquasecurity.github.io''
                           \<and> spec_scope crd \<noteq> ''Namespaced'') items))"
proof -
  have s1: "served (Suc 0) (record_call
      (ListClusterCustomObject ''apiextensions.k8s.io'' ''v1'' ''customresourcedefinitions'')
      (drop_faults (Suc 0) w))"
    using assms(1) by (simp add: served_2_drop)
  have m: "aqua_metadata = (\<lambda>crd. \<lparr>group = ''aquasecurity.github.io'', plural = spec_names_plural crd,
                       columns = getColumnDefinitions
                         (find (\<lambda>v. version_name v = ''v1alpha1'') (spec_versions crd)),
                       scope = spec_scope crd\<rparr>)"
    by (rule ext) (simp add: aqua_metadata_def Let_def)
  have f: "aqua_filter = (\<lambda>crd. spec_group crd = ''aquasecurity.github.io''
                           \<and> spec_scope crd \<noteq> ''Namespaced'')"
    by (rule ext) (simp add: aqua_filter_def)
  show ?thesis
    using assms(2-5) s1
    by (simp add: listAllAquaSecurityCRDs_def redis_get_served [OF served_2_1 [OF assms(1)]]
        cache_miss_def fetchAquaSecurityCRDs_def Let_def redis_setEx_served m f)
qed

theorem listAllAquaSecurityCRDs_filter_witness:
  "served 2 emptyWorld \<and> cache_miss 100 ''aqua_security_crds'' emptyWorld
   \<and> CACHE_DURATION defaultConfig = Some 1800
   \<and> map spec_scope (case crdListing sampleApi of Inr (Some items) \<Rightarrow> items | _ \<Rightarrow> [])
       = [''Cluster'', ''Namespaced'']
   \<and> fst (listAllAquaSecurityCRDs sampleHost defaultConfig sampleApi 100 emptyWorld) =
       Inr [\<lparr>group = ''aquasecurity.github.io'', plural = ''clustervulnerabilityreports'',
             columns = [], scope = ''Cluster''\<rparr>]"
  using listAllAquaSecurityCRDs_filter [where w = emptyWorld and now = 100
      and cfg = defaultConfig and ttl = 1800 and api = sampleApi and h = sampleHost,
      OF served_emptyWorld cache_miss_emptyWorld CACHE_DURATION_default]
  by (simp add: sampleApi_def getColumnDefinitions_def served_emptyWorld cache_miss_emptyWorld
      CACHE_DURATION_default)

section \<open>loadReports: a listing that fails\<close>

lemma warn_if_Error_fields [simp]:
  "store (warn_if_Error line e w) = store w"
  "api_calls (warn_if_Error line e w) = api_calls w"
  "store_faults (warn_if_Error line e w) = store_faults w"
  "warnings (warn_if_Error line (Error m) w) = warnings w @ [line m]"
  by (simp_all add: warn_if_Error_def split: thrown.splits)

lemma served_warn_if_Error [simp]: "served n (warn_if_Error line e w) = served n w"
  by (simp add: served_def)

lemma or_default_stated_scope: "or_default (crd_scope sp) ''Cluster'' = stated_scope sp"
  by (simp add: or_default_def stated_scope_def)

lemma listInstances_fails:
  "instance_listing api scp p = Inl (Error m) \<Longrightarrow>
   \<exists>w'. listInstances api scp p w = ([], w') \<and> store w' = store w
        \<and> store_faults w' = store_faults w
        \<and> warnings w' = warnings w @
             [''Warning: Could not list '' @ (if scp = ''Namespaced'' then ''namespaced'' else ''cluster'')
                @ '' instances of '' @ p @ '': '' @ m]"
  by (auto simp: instance_listing_def listInstances_def Let_def split: if_splits)

text \<open>
  C6. On a cache miss, when the CRD object is found with a spec that lists \<open>v1alpha1\<close> and
  the listing of the instances is rejected with an Error, \<open>loadReports\<close> does not fail: it
  returns a payload with no manifests, no error field and the scope the CRD states
  (\<open>Cluster\<close> when it states none), after one warning that carries the message of the
  rejection. The store is taken to serve the read and the write.
\<close>

theorem loadReports_listing_failure:
  assumes "served 2 w" and "cache_miss now (''reports:'' @ p) w"
    and "CACHE_DURATION cfg = Some ttl" and "0 < ttl"
    and "crdObject api (p @ ''.aquasecurity.github.io'') = Inr r" and "spec r = Some sp"
    and "list_ex (\<lambda>v. version_name v = ''v1alpha1'') (versions sp)"
    and "instance_listing api (stated_scope sp) p = Inl (Error m)"
  shows "\<exists>d w'. loadReports h cfg api now p w = (Inr d, w')
           \<and> manifests d = [] \<and> error d = None \<and> ReportsData.scope d = stated_scope sp
           \<and> resource d = Some p
           \<and> warnings w' = warnings w @
               [''Warning: Could not list ''
                  @ (if stated_scope sp = ''Namespaced'' then ''namespaced'' else ''cluster'')
                  @ '' instances of '' @ p @ '': '' @ m]"
proof -
  let ?c = "GetClusterCustomObject ''apiextensions.k8s.io'' ''v1''
              ''customresourcedefinitions'' (p @ ''.aquasecurity.github.io'')"
  let ?w1 = "record_call ?c (drop_faults (Suc 0) w)"
  from assms(7) obtain vi where vi: "find (\<lambda>v. version_name v = ''v1alpha1'') (versions sp) = Some vi"
    by (auto simp: list_ex_find)
  from listInstances_fails [OF assms(8), of ?w1] obtain w2 where
    l: "listInstances api (stated_scope sp) p ?w1 = ([], w2)"
    and st: "store w2 = store w" and sf: "store_faults w2 = store_faults ?w1"
    and wn: "warnings w2 = warnings w @
               [''Warning: Could not list ''
                  @ (if stated_scope sp = ''Namespaced'' then ''namespaced'' else ''cluster'')
                  @ '' instances of '' @ p @ '': '' @ m]"
    by auto
  have s2: "served (Suc 0) w2"
    using served_2_drop [OF assms(1)] sf by (simp add: served_def)
  have f: "fetchReports h cfg api now p (drop_faults (Suc 0) w) =
      (Inr \<lparr>manifests = [], clusterName = resolveClusterName cfg, scope = stated_scope sp,
            error = None, resource = Some p\<rparr>,
       (drop_faults (Suc 0) w2)\<lparr>store := (store w2)(''reports:'' @ p :=
          Some (stringifyReports h \<lparr>manifests = [], clusterName = resolveClusterName cfg,
                  scope = stated_scope sp, error = None, resource = Some p\<rparr>, now + nat ttl))\<rparr>)"
    using assms(3-6) vi l s2
    by (simp add: fetchReports_def Let_def or_default_stated_scope redis_setEx_served)
  show ?thesis
    using assms(2) f wn
    by (simp add: loadReports_def redis_get_served [OF served_2_1 [OF assms(1)]] cache_miss_def)
qed

theorem loadReports_listing_failure_witness:
  "served 2 emptyWorld \<and> cache_miss 100 ''reports:vulnerabilityreports'' emptyWorld
   \<and> CACHE_DURATION defaultConfig = Some 1800
   \<and> crdObject listingDownApi ''vulnerabilityreports.aquasecurity.github.io'' = Inr sampleCRD
   \<and> instance_listing listingDownApi ''Namespaced'' ''vulnerabilityreports''
       = Inl (Error ''503 Service Unavailable'')
   \<and> (\<exists>d w'. loadReports sampleHost defaultConfig listingDownApi 100 ''vulnerabilityreports''
                emptyWorld = (Inr d, w')
         \<and> manifests d = [] \<and> error d = None \<and> ReportsData.scope d = ''Namespaced''
         \<and> resource d = Some ''vulnerabilityreports''
         \<and> warnings w' = [''Warning: Could not list namespaced instances of vulnerabilityreports: 503 Service Unavailable''])"
proof -
  have we: "warnings emptyWorld = []"
    by (simp add: emptyWorld_def)
  have sp: "spec sampleCRD = Some \<lparr>versions = [\<lparr>version_name = ''v1alpha1'',
      additionalPrinterColumns = None\<rparr>], crd_scope = Some ''Namespaced''\<rparr>"
    by (simp add: sampleCRD_def)
  have c: "crdObject listingDownApi (''vulnerabilityreports'' @ ''.aquasecurity.github.io'')
      = Inr sampleCRD"
    by (simp add: listingDownApi_def)
  have sc: "stated_scope \<lparr>versions = [\<lparr>version_name = ''v1alpha1'',
      additionalPrinterColumns = None\<rparr>], crd_scope = Some ''Namespaced''\<rparr> = ''Namespaced''"
    by (simp add: stated_scope_def)
  have il: "instance_listing listingDownApi ''Namespaced'' ''vulnerabilityreports''
       = Inl (Error ''503 Service Unavailable'')"
    by (simp add: instance_listing_def listingDownApi_def)
  from loadReports_listing_failure [where w = emptyWorld and now = 100
      and p = "''vulnerabilityreports''" and cfg = defaultConfig and ttl = 1800
      and api = listingDownApi and h = sampleHost and m = "''503 Service Unavailable''",
      OF served_emptyWorld cache_miss_emptyWorld CACHE_DURATION_default _ c sp]
  have "\<exists>d w'. loadReports sampleHost defaultConfig listingDownApi 100 ''vulnerabilityreports''
                emptyWorld = (Inr d, w')
         \<and> manifests d = [] \<and> error d = None \<and> ReportsData.scope d = ''Namespaced''
         \<and> resource d = Some ''vulnerabilityreports''
         \<and> warnings w' = [''Warning: Could not list namespaced instances of vulnerabilityreports: 503 Service Unavailable'']"
    by (simp add: sc il we)
  then show ?thesis
    using c il by (simp add: served_emptyWorld cache_miss_emptyWorld CACHE_DURATION_default)
qed

section \<open>What a call leaves in the store\<close>

lemma redis_get_result:
  "redis_get now key w = (r, w') \<Longrightarrow>
   store w' = store w \<and> api_calls w' = api_calls w
   \<and> (r = Inr (live now (store w key)) \<or> (\<exists>m. r = Inl (Error m)))"
  by (auto simp: redis_get_def next_fault_def split: list.splits option.splits)

lemma redis_setEx_Inr:
  "redis_setEx now key s text w = (Inr u, w') \<Longrightarrow>
   \<exists>n. s = Some n \<and> 0 < n \<and> store w' = (store w)(key \<mapsto> (text, now + nat n))"
  by (auto simp: redis_setEx_def next_fault_def split: list.splits option.splits if_splits)

lemma listInstances_frame:
  "listInstances api scp p w = (items, w') \<Longrightarrow>
   store w' = store w \<and> store_faults w' = store_faults w"
  by (auto simp: listInstances_def Let_def split: if_splits sum.splits)

lemma fetchReports_Inr:
  assumes "fetchReports h cfg api now p w = (Inr d, w')"
  shows "\<exists>n. CACHE_DURATION cfg = Some n \<and> 0 < n
           \<and> store w' = (store w)(''reports:'' @ p \<mapsto> (stringifyReports h d, now + nat n))
           \<and> error d = None
           \<and> (\<exists>r sp. crdObject api (p @ ''.aquasecurity.github.io'') = Inr r \<and> spec r = Some sp
                  \<and> ReportsData.scope d = stated_scope sp)"
proof -
  let ?w1 = "record_call (GetClusterCustomObject ''apiextensions.k8s.io'' ''v1''
                ''customresourcedefinitions'' (p @ ''.aquasecurity.github.io'')) w"
  from assms obtain r where r: "crdObject api (p @ ''.aquasecurity.github.io'') = Inr r"
    by (cases "crdObject api (p @ ''.aquasecurity.github.io'')") (auto simp: fetchReports_def Let_def)
  from assms r obtain sp where sp: "spec r = Some sp"
    by (cases "spec r") (auto simp: fetchReports_def Let_def)
  from assms r sp obtain vi where
    vi: "find (\<lambda>v. version_name v = ''v1alpha1'') (versions sp) = Some vi"
    by (cases "find (\<lambda>v. version_name v = ''v1alpha1'') (versions sp)")
      (auto simp: fetchReports_def Let_def)
  obtain items w2 where l: "listInstances api (stated_scope sp) p ?w1 = (items, w2)"
    by (cases "listInstances api (stated_scope sp) p ?w1")
  let ?cols = "if length (getColumnDefinitions (Some vi)) = 0 then defaultColumns
               else getColumnDefinitions (Some vi)"
  from assms r sp vi l obtain fr where fr: "projectItems h ?cols items = Inr fr"
    by (cases "projectItems h ?cols items")
      (auto simp: fetchReports_def Let_def or_default_stated_scope)
  let ?d = "\<lparr>manifests = fr, clusterName = resolveClusterName cfg, scope = stated_scope sp,
             error = None, resource = Some p\<rparr>"
  from assms r sp vi l fr
  have s: "redis_setEx now (''reports:'' @ p) (CACHE_DURATION cfg) (stringifyReports h ?d) w2
             = (Inr (), w') \<and> d = ?d"
    by (auto simp: fetchReports_def Let_def or_default_stated_scope split: prod.splits sum.splits)
  from redis_setEx_Inr [of now "''reports:'' @ p" "CACHE_DURATION cfg" "stringifyReports h ?d" w2 "()" w'] s
  obtain n where "CACHE_DURATION cfg = Some n" "0 < n"
    "store w' = (store w2)(''reports:'' @ p \<mapsto> (stringifyReports h ?d, now + nat n))"
    by auto
  with listInstances_frame [OF l] s r sp show ?thesis
    by auto
qed

lemma fetchReports_Inl:
  assumes "fetchReports h cfg api now p w = (Inl e, w')"
    and "served (Suc 0) w" and "CACHE_DURATION cfg = Some n" and "0 < n"
  shows "store w' = store w \<and> store_faults w' = store_faults w"
proof -
  let ?w1 = "record_call (GetClusterCustomObject ''apiextensions.k8s.io'' ''v1''
                ''customresourcedefinitions'' (p @ ''.aquasecurity.github.io'')) w"
  show ?thesis
  proof (cases "crdObject api (p @ ''.aquasecurity.github.io'')")
    case (Inl a)
    with assms(1) show ?thesis by (auto simp: fetchReports_def Let_def)
  next
    case (Inr r)
    show ?thesis
    proof (cases "spec r")
      case None
      with assms(1) Inr show ?thesis by (auto simp: fetchReports_def Let_def)
    next
      case (Some sp)
      show ?thesis
      proof (cases "find (\<lambda>v. version_name v = ''v1alpha1'') (versions sp)")
        case None
        with assms(1) Inr Some show ?thesis by (auto simp: fetchReports_def Let_def)
      next
        case vi: (Some vi)
        obtain items w2 where l: "listInstances api (stated_scope sp) p ?w1 = (items, w2)"
          by (cases "listInstances api (stated_scope sp) p ?w1")
        from listInstances_frame [OF l] assms(2) have s2: "served (Suc 0) w2"
          by (simp add: served_def)
        let ?cols = "if length (getColumnDefinitions (Some vi)) = 0 then defaultColumns
               else getColumnDefinitions (Some vi)"
        show ?thesis
        proof (cases "projectItems h ?cols items")
          case (Inl a)
          with assms(1) Inr Some vi l listInstances_frame [OF l] show ?thesis
            by (auto simp: fetchReports_def Let_def or_default_stated_scope)
        next
          case fr: (Inr fr)
          with assms Inr Some vi l s2 show ?thesis
            by (auto simp: fetchReports_def Let_def or_default_stated_scope redis_setEx_served)
        qed
      qed
    qed
  qed
qed

lemma loadReports_miss:
  assumes "served 2 w" and "cache_miss now (''reports:'' @ p) w"
    and "CACHE_DURATION cfg = Some ttl" and "0 < ttl"
  shows "\<exists>d w'. loadReports h cfg api now p w = (Inr d, w')
           \<and> store w' = (store w)(''reports:'' @ p \<mapsto> (stringifyReports h d, now + nat ttl))"
proof -
  let ?w1 = "drop_faults (Suc 0) w"
  have g: "redis_get now (''reports:'' @ p) w = (Inr (live now (store w (''reports:'' @ p))), ?w1)"
    using assms(1) by (simp add: redis_get_served served_2_1)
  have s1: "served (Suc 0) ?w1"
    using assms(1) by (rule served_2_drop)
  obtain r w2 where f: "fetchReports h cfg api now p ?w1 = (r, w2)"
    by (cases "fetchReports h cfg api now p ?w1")
  show ?thesis
  proof (cases r)
    case (Inr d)
    from fetchReports_Inr [OF f [unfolded Inr]] assms(3)
    have "store w2 = (store w)(''reports:'' @ p \<mapsto> (stringifyReports h d, now + nat ttl))"
      by auto
    with g f Inr assms(2) show ?thesis
      by (simp add: loadReports_def cache_miss_def)
  next
    case (Inl e)
    from fetchReports_Inl [OF f [unfolded Inl] s1 assms(3,4)]
    have st: "store w2 = store w" and s2: "served (Suc 0) w2"
      using s1 by (simp_all add: served_def)
    from g f Inl assms(2-4) st s2 show ?thesis
      by (simp add: loadReports_def cache_miss_def Let_def redis_setEx_served)
  qed
qed

lemma loadReports_miss_Inr:
  assumes "loadReports h cfg api now p w = (Inr d, w')" and "cache_miss now (''reports:'' @ p) w"
  shows "\<exists>n. CACHE_DURATION cfg = Some n \<and> 0 < n
           \<and> store w' (''reports:'' @ p) = Some (stringifyReports h d, now + nat n)
           \<and> (error d = None \<and> (\<exists>r sp. crdObject api (p @ ''.aquasecurity.github.io'') = Inr r
                  \<and> spec r = Some sp \<and> ReportsData.scope d = stated_scope sp)
              \<or> (\<exists>e. d = errorPayload e p))"
proof -
  obtain r0 w1 where g: "redis_get now (''reports:'' @ p) w = (r0, w1)"
    by (cases "redis_get now (''reports:'' @ p) w")
  from redis_get_result [OF g] assms(1) g
  have r0: "r0 = Inr (live now (store w (''reports:'' @ p)))" and st1: "store w1 = store w"
    by (auto simp: loadReports_def)
  obtain r w2 where f: "fetchReports h cfg api now p w1 = (r, w2)"
    by (cases "fetchReports h cfg api now p w1")
  show ?thesis
  proof (cases r)
    case (Inr d')
    with assms g r0 f have "d' = d" "w2 = w'"
      by (auto simp: loadReports_def cache_miss_def)
    with fetchReports_Inr [OF f [unfolded Inr]] show ?thesis
      by auto
  next
    case (Inl e)
    with assms g r0 f
    have s: "redis_setEx now (''reports:'' @ p) (CACHE_DURATION cfg)
               (stringifyReports h (errorPayload e p)) w2 = (Inr (), w')"
      and d: "d = errorPayload e p"
      by (auto simp: loadReports_def cache_miss_def Let_def split: prod.splits sum.splits)
    from redis_setEx_Inr [OF s] d show ?thesis
      by auto
  qed
qed

lemma loadReports_hit:
  assumes "live now (store w (''reports:'' @ p)) = Some text" and "text \<noteq> []"
  shows "api_calls (snd (loadReports h cfg api now p w)) = api_calls w
         \<and> (served 1 w \<longrightarrow> fst (loadReports h cfg api now p w) = parseReports h text)"
  using assms
  by (auto simp: loadReports_def redis_get_def next_fault_def cache_hit_def served_def
      split: list.splits option.splits)

lemma loadReports_not_miss:
  assumes "\<not> cache_miss now (''reports:'' @ p) w"
  shows "api_calls (snd (loadReports h cfg api now p w)) = api_calls w"
proof -
  from assms obtain t0 where "live now (store w (''reports:'' @ p)) = Some t0" "t0 \<noteq> []"
    by (auto simp: cache_miss_def cache_hit_def split: option.splits if_splits)
  from loadReports_hit [OF this] show ?thesis by simp
qed

section \<open>Two calls within the lifetime of an entry\<close>

lemma live_entry: "now < expiry \<Longrightarrow> live now (Some (t, expiry)) = Some t"
  by (simp add: live_def)

lemma loadReports_inProcess_Inr:
  "loadReports_inProcess h cfg api now p st = (Inr d, st') \<Longrightarrow>
   cached_entry now (cache st p) = None \<Longrightarrow>
   cache st' = (cache st)(p \<mapsto> \<lparr>data = d, timestamp = now\<rparr>)"
  by (auto simp: loadReports_inProcess_def Let_def split: sum.splits)

lemma loadReports_inProcess_hit:
  "cached_entry now (cache st p) = Some d \<Longrightarrow>
   loadReports_inProcess h cfg api now p st = (Inr d, st)"
  by (simp add: loadReports_inProcess_def)

text \<open>
  C7. Take a call of \<open>loadReports\<close> that returns, and a second call for the same plural
  made before the entry written by the first has expired, the entry not having been touched
  in between. If the first call found the cache empty, the second call makes no call to the
  cluster API, and, the store serving its read, it returns what the stored text parses to,
  the stored text being the serialisation of what the first call returned. If the first call
  found an entry, it made no call to the cluster API itself. So the two calls together go
  through at most one sequence of cluster-API calls. The same holds of the in-process
  variant, whose second call returns the very payload of the first.
\<close>

theorem loadReports_second_call_cached:
  "(loadReports h cfg api t1 p w = (Inr d, w1) \<and> cache_miss t1 (''reports:'' @ p) w
      \<and> CACHE_DURATION cfg = Some ttl \<and> t2 < t1 + nat ttl
      \<and> store w1' (''reports:'' @ p) = store w1 (''reports:'' @ p)
      \<and> stringifyReports h d \<noteq> []
    \<longrightarrow> api_calls (snd (loadReports h cfg api t2 p w1')) = api_calls w1'
        \<and> (served 1 w1' \<longrightarrow>
             fst (loadReports h cfg api t2 p w1') = parseReports h (stringifyReports h d)))
   \<and> (\<not> cache_miss t1 (''reports:'' @ p) w
    \<longrightarrow> api_calls (snd (loadReports h cfg api t1 p w)) = api_calls w)
   \<and> (loadReports_inProcess h cfg api n1 p st = (Inr d', st1) \<and> cached_entry n1 (cache st p) = None
      \<and> n2 - n1 < CACHE_DURATION_ms \<and> cache st1' p = cache st1 p
    \<longrightarrow> loadReports_inProcess h cfg api n2 p st1' = (Inr d', st1'))
   \<and> (cached_entry n1 (cache st p) \<noteq> None
    \<longrightarrow> cluster_calls (snd (loadReports_inProcess h cfg api n1 p st)) = cluster_calls st)"
proof -
  have 1: "api_calls (snd (loadReports h cfg api t2 p w1')) = api_calls w1'
        \<and> (served 1 w1' \<longrightarrow>
             fst (loadReports h cfg api t2 p w1') = parseReports h (stringifyReports h d))"
    if a: "loadReports h cfg api t1 p w = (Inr d, w1) \<and> cache_miss t1 (''reports:'' @ p) w
      \<and> CACHE_DURATION cfg = Some ttl \<and> t2 < t1 + nat ttl
      \<and> store w1' (''reports:'' @ p) = store w1 (''reports:'' @ p)
      \<and> stringifyReports h d \<noteq> []"
  proof -
    from loadReports_miss_Inr [of h cfg api t1 p w d w1] a
    have "store w1 (''reports:'' @ p) = Some (stringifyReports h d, t1 + nat ttl)"
      by auto
    with a have l: "live t2 (store w1' (''reports:'' @ p)) = Some (stringifyReports h d)"
      by (simp add: live_entry)
    from loadReports_hit [OF l] a show ?thesis
      by simp
  qed
  have 2: "api_calls (snd (loadReports h cfg api t1 p w)) = api_calls w"
    if "\<not> cache_miss t1 (''reports:'' @ p) w"
    using that by (rule loadReports_not_miss)
  have 3: "loadReports_inProcess h cfg api n2 p st1' = (Inr d', st1')"
    if b: "loadReports_inProcess h cfg api n1 p st = (Inr d', st1) \<and> cached_entry n1 (cache st p) = None
      \<and> n2 - n1 < CACHE_DURATION_ms \<and> cache st1' p = cache st1 p"
  proof -
    from loadReports_inProcess_Inr [of h cfg api n1 p st d' st1] b
    have "cache st1 p = Some \<lparr>data = d', timestamp = n1\<rparr>"
      by simp
    with b have "cached_entry n2 (cache st1' p) = Some d'"
      by (simp add: cached_entry_def)
    then show ?thesis
      by (rule loadReports_inProcess_hit)
  qed
  have 4: "cluster_calls (snd (loadReports_inProcess h cfg api n1 p st)) = cluster_calls st"
    if "cached_entry n1 (cache st p) \<noteq> None"
    using that by (auto simp: loadReports_inProcess_def)
  from 1 2 3 4 show ?thesis
    by blast
qed

lemma loadReports_brokenApi:
  "loadReports sampleHost defaultConfig brokenApi 100 ''vulnerabilityreports'' emptyWorld =
     (Inr notFoundPayload,
      \<lparr>store = (\<lambda>k. None)(''reports:vulnerabilityreports'' \<mapsto> (notFoundText, 1900)),
       store_faults = [],
       api_calls = [GetClusterCustomObject ''apiextensions.k8s.io'' ''v1''
                      ''customresourcedefinitions'' ''vulnerabilityreports.aquasecurity.github.io''],
       warnings = []\<rparr>)"
proof -
  let ?w2 = "record_call (GetClusterCustomObject ''apiextensions.k8s.io'' ''v1''
              ''customresourcedefinitions'' (''vulnerabilityreports'' @ ''.aquasecurity.github.io''))
              (drop_faults (Suc 0) emptyWorld)"
  have f: "fetchReports sampleHost defaultConfig brokenApi 100 ''vulnerabilityreports''
             (drop_faults (Suc 0) emptyWorld) = (Inl (Error ''not found''), ?w2)"
    by (rule fetchReports_schema_failure) (rule schema_failure_brokenApi)
  have s2: "served (Suc 0) ?w2"
    by (simp add: served_def emptyWorld_def)
  have w: "(drop_faults (Suc 0) ?w2)\<lparr>store := (store emptyWorld)(''reports:vulnerabilityreports'' \<mapsto>
               (stringifyReports sampleHost notFoundPayload, 1900))\<rparr> =
      \<lparr>store = (\<lambda>k. None)(''reports:vulnerabilityreports'' \<mapsto> (notFoundText, 1900)),
       store_faults = [],
       api_calls = [GetClusterCustomObject ''apiextensions.k8s.io'' ''v1''
                      ''customresourcedefinitions'' ''vulnerabilityreports.aquasecurity.github.io''],
       warnings = []\<rparr>"
    by (simp add: emptyWorld_def drop_faults_def record_call_def stringify_notFound)
  from loadReports_caught [OF served_emptyWorld cache_miss_emptyWorld f s2
      CACHE_DURATION_default]
  have "loadReports sampleHost defaultConfig brokenApi 100 ''vulnerabilityreports'' emptyWorld =
     (Inr notFoundPayload,
      (drop_faults (Suc 0) ?w2)\<lparr>store := (store emptyWorld)(''reports:vulnerabilityreports'' \<mapsto>
               (stringifyReports sampleHost notFoundPayload, 1900))\<rparr>)"
    by (simp add: notFoundPayload_def [symmetric])
  then show ?thesis
    by (simp only: w)
qed

theorem loadReports_second_call_cached_witness:
  "loadReports sampleHost defaultConfig brokenApi 100 ''vulnerabilityreports'' emptyWorld =
     (Inr notFoundPayload,
      \<lparr>store = (\<lambda>k. None)(''reports:vulnerabilityreports'' \<mapsto> (notFoundText, 1900)),
       store_faults = [],
       api_calls = [GetClusterCustomObject ''apiextensions.k8s.io'' ''v1''
                      ''customresourcedefinitions'' ''vulnerabilityreports.aquasecurity.github.io''],
       warnings = []\<rparr>)
   \<and> cache_miss 100 ''reports:vulnerabilityreports'' emptyWorld
   \<and> (1899::nat) < 100 + nat 1800
   \<and> api_calls (snd (loadReports sampleHost defaultConfig brokenApi 1899 ''vulnerabilityreports''
        \<lparr>store = (\<lambda>k. None)(''reports:vulnerabilityreports'' \<mapsto> (notFoundText, 1900)),
         store_faults = [],
         api_calls = [GetClusterCustomObject ''apiextensions.k8s.io'' ''v1''
                      ''customresourcedefinitions'' ''vulnerabilityreports.aquasecurity.github.io''],
         warnings = []\<rparr>))
       = [GetClusterCustomObject ''apiextensions.k8s.io'' ''v1''
            ''customresourcedefinitions'' ''vulnerabilityreports.aquasecurity.github.io'']
   \<and> fst (loadReports sampleHost defaultConfig brokenApi 1899 ''vulnerabilityreports''
        \<lparr>store = (\<lambda>k. None)(''reports:vulnerabilityreports'' \<mapsto> (notFoundText, 1900)),
         store_faults = [],
         api_calls = [GetClusterCustomObject ''apiextensions.k8s.io'' ''v1''
                      ''customresourcedefinitions'' ''vulnerabilityreports.aquasecurity.github.io''],
         warnings = []\<rparr>)
       = Inr notFoundPayload
   \<and> (\<exists>d' st1.
         loadReports_inProcess sampleHost defaultConfig sampleApi 0 ''vulnerabilityreports''
           emptyProcess = (Inr d', st1)
         \<and> loadReports_inProcess sampleHost defaultConfig sampleApi 290000
               ''vulnerabilityreports'' st1 = (Inr d', st1))"
proof -
  let ?w1 = "\<lparr>store = (\<lambda>k. None)(''reports:vulnerabilityreports'' \<mapsto> (notFoundText, 1900)),
         store_faults = [],
         api_calls = [GetClusterCustomObject ''apiextensions.k8s.io'' ''v1''
                      ''customresourcedefinitions'' ''vulnerabilityreports.aquasecurity.github.io''],
         warnings = []\<rparr>"
  let ?d = notFoundPayload
  have s: "stringifyReports sampleHost ?d = notFoundText"
    by (rule stringify_notFound)
  have sv: "served 1 ?w1"
    by (simp add: served_def)
  obtain d' st1 where
    v: "loadReports_inProcess sampleHost defaultConfig sampleApi 0 ''vulnerabilityreports''
          emptyProcess = (Inr d', st1)"
    by (simp add: loadReports_inProcess_def cached_entry_def emptyProcess_def sampleApi_def
        Let_def)
  have ce: "cached_entry 0 (cache emptyProcess ''vulnerabilityreports'') = None"
    by (simp add: cached_entry_def emptyProcess_def)
  have dur: "(290000::int) - 0 < CACHE_DURATION_ms"
    by (simp add: CACHE_DURATION_ms_def)
  from loadReports_second_call_cached [where h = sampleHost and cfg = defaultConfig
      and api = brokenApi and ?t1.0 = 100 and p = "''vulnerabilityreports''" and w = emptyWorld
      and d = ?d and ?w1.0 = ?w1 and ttl = 1800 and ?t2.0 = 1899 and w1' = ?w1
      and ?n1.0 = 0 and ?n2.0 = 290000 and st = emptyProcess and d' = d' and ?st1.0 = st1
      and st1' = st1 and api = brokenApi]
    loadReports_brokenApi cache_miss_emptyWorld CACHE_DURATION_default s sv
    notFoundText_nonempty parse_notFound
  have 1: "api_calls (snd (loadReports sampleHost defaultConfig brokenApi 1899
              ''vulnerabilityreports'' ?w1)) = api_calls ?w1
        \<and> fst (loadReports sampleHost defaultConfig brokenApi 1899 ''vulnerabilityreports'' ?w1)
            = Inr notFoundPayload"
    by simp
  from loadReports_second_call_cached [where cfg = defaultConfig and h = sampleHost
      and api = sampleApi and p = "''vulnerabilityreports''"
      and ?n1.0 = 0 and ?n2.0 = 290000 and st = emptyProcess and d' = d' and ?st1.0 = st1
      and st1' = st1] v ce dur
  have 2: "loadReports_inProcess sampleHost defaultConfig sampleApi 290000
              ''vulnerabilityreports'' st1 = (Inr d', st1)"
    by simp
  from 1 2 v loadReports_brokenApi cache_miss_emptyWorld show ?thesis
    by auto
qed

section \<open>loadReports: the payload of a fetch\<close>

lemma listInstances_items:
  "\<exists>w'. listInstances api (stated_scope sp) p w = (fetched_items api sp p, w')
        \<and> store w' = store w \<and> store_faults w' = store_faults w"
  by (auto simp: listInstances_def fetched_items_def instance_listing_def Let_def
      warn_if_Error_def split: sum.splits option.splits thrown.splits)

lemma report_columns_find:
  "find (\<lambda>v. version_name v = ''v1alpha1'') (versions sp) = Some vi \<Longrightarrow>
   report_columns sp =
     (if getColumnDefinitions (Some vi) = [] then defaultColumns
      else getColumnDefinitions (Some vi))"
  by (simp add: report_columns_def Let_def)

lemma fetchReports_outcome:
  assumes "served (Suc 0) w" and "CACHE_DURATION cfg = Some ttl" and "0 < ttl"
    and "crdObject api (p @ ''.aquasecurity.github.io'') = Inr r" and "spec r = Some sp"
    and "list_ex (\<lambda>v. version_name v = ''v1alpha1'') (versions sp)"
  shows "\<exists>w2 w3. store w2 = store w \<and> served (Suc 0) w2 \<and>
           fetchReports h cfg api now p w =
             (case projectItems h (report_columns sp) (fetched_items api sp p) of
                Inl e \<Rightarrow> (Inl e, w2)
              | Inr rs \<Rightarrow>
                  (Inr \<lparr>manifests = rs, clusterName = resolveClusterName cfg,
                        scope = stated_scope sp, error = None, resource = Some p\<rparr>, w3))"
proof -
  let ?w1 = "record_call (GetClusterCustomObject ''apiextensions.k8s.io'' ''v1''
                ''customresourcedefinitions'' (p @ ''.aquasecurity.github.io'')) w"
  from assms(6) obtain vi where
    vi: "find (\<lambda>v. version_name v = ''v1alpha1'') (versions sp) = Some vi"
    by (auto simp: list_ex_find)
  from listInstances_items [of api sp p ?w1] obtain w2 where
    l: "listInstances api (stated_scope sp) p ?w1 = (fetched_items api sp p, w2)"
    and st: "store w2 = store w" and sf: "store_faults w2 = store_faults w"
    by auto
  have s2: "served (Suc 0) w2"
    using assms(1) sf by (simp add: served_def)
  show ?thesis
  proof (cases "projectItems h (report_columns sp) (fetched_items api sp p)")
    case (Inl e)
    with assms(4,5) vi l st s2 show ?thesis
      by (auto simp: fetchReports_def Let_def or_default_stated_scope report_columns_find [OF vi]
          split: if_splits)
  next
    case (Inr rs)
    with assms(2-5) vi l st s2 show ?thesis
      by (auto simp: fetchReports_def Let_def or_default_stated_scope report_columns_find [OF vi]
          redis_setEx_served split: if_splits)
  qed
qed

lemma loadReports_built:
  assumes "served 2 w" and "cache_miss now (''reports:'' @ p) w"
    and "CACHE_DURATION cfg = Some ttl" and "0 < ttl"
    and "crdObject api (p @ ''.aquasecurity.github.io'') = Inr r" and "spec r = Some sp"
    and "list_ex (\<lambda>v. version_name v = ''v1alpha1'') (versions sp)"
    and "projectItems h (report_columns sp) (fetched_items api sp p) = Inr rs"
  shows "\<exists>w'. loadReports h cfg api now p w =
           (Inr \<lparr>manifests = rs, clusterName = resolveClusterName cfg,
                 scope = stated_scope sp, error = None, resource = Some p\<rparr>, w')"
proof -
  from fetchReports_outcome [OF served_2_drop [OF assms(1)] assms(3-7), of h now] assms(8)
  obtain w3 where "fetchReports h cfg api now p (drop_faults (Suc 0) w) =
      (Inr \<lparr>manifests = rs, clusterName = resolveClusterName cfg,
            scope = stated_scope sp, error = None, resource = Some p\<rparr>, w3)"
    by auto
  with assms(2) show ?thesis
    by (simp add: loadReports_def redis_get_served [OF served_2_1 [OF assms(1)]] cache_miss_def)
qed



subsection \<open>The example cluster\<close>

lemma reportsApi_crdObject:
  "crdObject (reportsApi scp pcs items) (''vulnerabilityreports'' @ ''.aquasecurity.github.io'')
     = Inr \<lparr>spec = Some (reportsSpec scp pcs)\<rparr>"
  by (simp add: reportsApi_def)

lemma reportsSpec_version:
  "list_ex (\<lambda>v. version_name v = ''v1alpha1'') (versions (reportsSpec scp pcs))"
  by (simp add: reportsSpec_def)

lemma reportsApi_items:
  "fetched_items (reportsApi scp pcs items) (reportsSpec scp pcs) p = items"
  by (simp add: fetched_items_def instance_listing_def reportsApi_def)

lemma reportsSpec_scope: "scp \<noteq> [] \<Longrightarrow> stated_scope (reportsSpec scp pcs) = scp"
  by (simp add: stated_scope_def reportsSpec_def)


lemma resolveClusterName_default: "resolveClusterName defaultConfig = ''prod''"
  by (simp add: resolveClusterName_def defaultConfig_def or_default_def)

lemma loadReports_reportsApi:
  assumes "projectItems sampleHost (report_columns (reportsSpec scp pcs)) items = Inr rs"
    and "scp \<noteq> []"
  shows "\<exists>w'. loadReports sampleHost defaultConfig (reportsApi scp pcs items) 100
                ''vulnerabilityreports'' emptyWorld =
           (Inr \<lparr>manifests = rs, clusterName = ''prod'', scope = scp, error = None,
                 resource = Some ''vulnerabilityreports''\<rparr>, w')"
proof -
  have "(0::int) < 1800" by simp
  from loadReports_built [where h = sampleHost and w = emptyWorld and now = 100
      and cfg = defaultConfig and api = "reportsApi scp pcs items" and rs = rs
      and p = "''vulnerabilityreports''" and sp = "reportsSpec scp pcs"
      and r = "\<lparr>spec = Some (reportsSpec scp pcs)\<rparr>",
      OF served_emptyWorld cache_miss_emptyWorld CACHE_DURATION_default this
      reportsApi_crdObject _ reportsSpec_version] assms
  show ?thesis
    by (simp add: reportsApi_items reportsSpec_scope resolveClusterName_default)
qed

section \<open>The scope of a payload\<close>

lemma stated_scope_known:
  "crd_scope sp = None \<or> crd_scope sp = Some [] \<or> crd_scope sp = Some ''Cluster''
     \<or> crd_scope sp = Some ''Namespaced'' \<Longrightarrow>
   stated_scope sp = ''Cluster'' \<or> stated_scope sp = ''Namespaced''"
  by (auto simp: stated_scope_def)

lemma loadReports_built_or_failed:
  assumes "loadReports h cfg api now p w = (Inr d, w')"
    and "cache_miss now (''reports:'' @ p) w"
  shows "(error d = None
            \<and> (\<exists>r sp. crdObject api (p @ ''.aquasecurity.github.io'') = Inr r \<and> spec r = Some sp
                   \<and> ReportsData.scope d = stated_scope sp))
         \<or> (ReportsData.scope d = ''Unknown'' \<and> error d \<noteq> None)"
  using loadReports_miss_Inr [OF assms] by (auto simp: errorPayload_def)

lemma loadReports_miss_scope_ok:
  assumes "loadReports h cfg api now p w = (Inr d, w')"
    and "cache_miss now (''reports:'' @ p) w"
    and "known_scope api p"
  shows "scope_ok d"
proof -
  from loadReports_built_or_failed [OF assms(1,2)]
  consider (built) r sp where "crdObject api (p @ ''.aquasecurity.github.io'') = Inr r"
      "spec r = Some sp" "ReportsData.scope d = stated_scope sp" "error d = None"
    | (failed) "ReportsData.scope d = ''Unknown''" "error d \<noteq> None"
    by blast
  then show ?thesis
  proof cases
    case built
    with assms(3) have "crd_scope sp = None \<or> crd_scope sp = Some [] \<or> crd_scope sp = Some ''Cluster''
     \<or> crd_scope sp = Some ''Namespaced''"
      by (auto simp: known_scope_def split: option.splits)
    from stated_scope_known [OF this] built show ?thesis
      by (auto simp: scope_ok_def)
  next
    case failed
    then show ?thesis
      by (simp add: scope_ok_def)
  qed
qed

lemma loadReports_hit_parsed:
  assumes "loadReports h cfg api now p w = (Inr d, w')"
    and "\<not> cache_miss now (''reports:'' @ p) w"
  shows "\<exists>cached. cache_hit (live now (store w (''reports:'' @ p))) = Some cached
           \<and> parseReports h cached = Inr d"
proof -
  from assms(2) obtain t0 where t: "cache_hit (live now (store w (''reports:'' @ p))) = Some t0"
    by (auto simp: cache_miss_def)
  obtain r0 w1 where g: "redis_get now (''reports:'' @ p) w = (r0, w1)"
    by (cases "redis_get now (''reports:'' @ p) w")
  from redis_get_result [OF g] assms(1) g
  have r0: "r0 = Inr (live now (store w (''reports:'' @ p)))"
    by (auto simp: loadReports_def)
  from assms(1) g r0 t have "parseReports h t0 = Inr d"
    by (simp add: loadReports_def)
  with t show ?thesis
    by blast
qed

lemma projectItems_none: "projectItems h cols [] = Inr []"
  by simp

lemma cachedWorld_hit:
  "cache_hit (live 150 (store cachedWorld ''reports:vulnerabilityreports'')) = Some notFoundText"
  using notFoundText_nonempty by (simp add: cachedWorld_def live_def cache_hit_def)

lemma loadReports_cachedWorld:
  "loadReports sampleHost defaultConfig brokenApi 150 ''vulnerabilityreports'' cachedWorld =
     (Inr notFoundPayload, cachedWorld)"
  using cachedWorld_hit
  by (simp add: loadReports_def redis_get_def next_fault_def cachedWorld_def parse_notFound)

text \<open>
  C8, as the code has it. A payload that \<open>loadReports\<close> builds on a cache miss is either
  the error payload, whose scope is \<open>Unknown\<close> and whose error is set, or a payload with
  no error whose scope is the string the CRD object states, \<open>Cluster\<close> standing in for a
  missing or empty one. The string is passed through unchecked: the scope is one of
  \<open>Cluster\<close>, \<open>Namespaced\<close> and \<open>Unknown\<close>, and \<open>Unknown\<close> only beside an error,
  when the CRD object states \<open>Cluster\<close>, \<open>Namespaced\<close> or nothing. A payload returned
  on a cache hit is whatever the stored text parses to.
\<close>

theorem loadReports_scope:
  "(loadReports h cfg api now p w = (Inr d, w') \<and> cache_miss now (''reports:'' @ p) w
    \<longrightarrow> (error d = None
           \<and> (\<exists>r sp. crdObject api (p @ ''.aquasecurity.github.io'') = Inr r \<and> spec r = Some sp
                  \<and> ReportsData.scope d = stated_scope sp))
        \<or> (ReportsData.scope d = ''Unknown'' \<and> error d \<noteq> None))
   \<and> (loadReports h cfg api now p w = (Inr d, w') \<and> cache_miss now (''reports:'' @ p) w
        \<and> known_scope api p
    \<longrightarrow> (ReportsData.scope d = ''Cluster'' \<or> ReportsData.scope d = ''Namespaced''
            \<or> ReportsData.scope d = ''Unknown'')
        \<and> (ReportsData.scope d = ''Unknown'' \<longrightarrow> error d \<noteq> None))
   \<and> (loadReports h cfg api now p w = (Inr d, w') \<and> \<not> cache_miss now (''reports:'' @ p) w
    \<longrightarrow> (\<exists>cached. cache_hit (live now (store w (''reports:'' @ p))) = Some cached
           \<and> parseReports h cached = Inr d))"
proof -
  have 1: "(error d = None
           \<and> (\<exists>r sp. crdObject api (p @ ''.aquasecurity.github.io'') = Inr r \<and> spec r = Some sp
                  \<and> ReportsData.scope d = stated_scope sp))
        \<or> (ReportsData.scope d = ''Unknown'' \<and> error d \<noteq> None)"
    if "loadReports h cfg api now p w = (Inr d, w') \<and> cache_miss now (''reports:'' @ p) w"
    using that loadReports_built_or_failed [of h cfg api now p w d w'] by blast
  have 2: "(ReportsData.scope d = ''Cluster'' \<or> ReportsData.scope d = ''Namespaced''
            \<or> ReportsData.scope d = ''Unknown'')
        \<and> (ReportsData.scope d = ''Unknown'' \<longrightarrow> error d \<noteq> None)"
    if "loadReports h cfg api now p w = (Inr d, w') \<and> cache_miss now (''reports:'' @ p) w
        \<and> known_scope api p"
    using that loadReports_miss_scope_ok [of h cfg api now p w d w'] by (simp add: scope_ok_def)
  have 3: "\<exists>cached. cache_hit (live now (store w (''reports:'' @ p))) = Some cached
           \<and> parseReports h cached = Inr d"
    if "loadReports h cfg api now p w = (Inr d, w') \<and> \<not> cache_miss now (''reports:'' @ p) w"
    using that loadReports_hit_parsed [of h cfg api now p w d w'] by blast
  from 1 2 3 show ?thesis
    by blast
qed

theorem loadReports_scope_witness:
  "cache_miss 100 ''reports:vulnerabilityreports'' emptyWorld
   \<and> known_scope (reportsApi ''Namespaced'' None []) ''vulnerabilityreports''
   \<and> (\<exists>d w'. loadReports sampleHost defaultConfig (reportsApi ''Namespaced'' None []) 100
                ''vulnerabilityreports'' emptyWorld = (Inr d, w')
         \<and> ReportsData.scope d = ''Namespaced'' \<and> error d = None
         \<and> stated_scope (reportsSpec ''Namespaced'' None) = ''Namespaced'')
   \<and> (\<exists>w'. loadReports sampleHost defaultConfig brokenApi 100 ''vulnerabilityreports'' emptyWorld
              = (Inr notFoundPayload, w'))
   \<and> ReportsData.scope notFoundPayload = ''Unknown'' \<and> error notFoundPayload \<noteq> None
   \<and> \<not> cache_miss 150 ''reports:vulnerabilityreports'' cachedWorld
   \<and> loadReports sampleHost defaultConfig brokenApi 150 ''vulnerabilityreports'' cachedWorld
       = (Inr notFoundPayload, cachedWorld)
   \<and> (\<exists>cached. cache_hit (live 150 (store cachedWorld ''reports:vulnerabilityreports''))
                  = Some cached
         \<and> parseReports sampleHost cached = Inr notFoundPayload)"
proof -
  have m: "cache_miss 100 (''reports:'' @ ''vulnerabilityreports'') emptyWorld"
    by (rule cache_miss_emptyWorld)
  have k: "known_scope (reportsApi ''Namespaced'' None []) ''vulnerabilityreports''"
    by (simp add: known_scope_def reportsApi_def reportsSpec_def)
  have ss: "stated_scope (reportsSpec ''Namespaced'' None) = ''Namespaced''"
    by (simp add: reportsSpec_scope)
  from loadReports_reportsApi [OF projectItems_none, of "''Namespaced''" None]
  obtain w1 where
    b: "loadReports sampleHost defaultConfig (reportsApi ''Namespaced'' None []) 100
          ''vulnerabilityreports'' emptyWorld =
        (Inr \<lparr>manifests = [], clusterName = ''prod'', scope = ''Namespaced'', error = None,
              resource = Some ''vulnerabilityreports''\<rparr>, w1)"
    by auto
  from loadReports_scope [where h = sampleHost and cfg = defaultConfig
      and api = "reportsApi ''Namespaced'' None []" and now = 100
      and p = "''vulnerabilityreports''" and w = emptyWorld and w' = w1
      and d = "\<lparr>manifests = [], clusterName = ''prod'', scope = ''Namespaced'', error = None,
              resource = Some ''vulnerabilityreports''\<rparr>"] b m k
  have 1: "\<exists>d w'. loadReports sampleHost defaultConfig (reportsApi ''Namespaced'' None []) 100
                ''vulnerabilityreports'' emptyWorld = (Inr d, w')
         \<and> ReportsData.scope d = ''Namespaced'' \<and> error d = None"
    by simp
  from loadReports_scope [where h = sampleHost and cfg = defaultConfig
      and api = brokenApi and now = 100 and p = "''vulnerabilityreports''" and w = emptyWorld
      and d = notFoundPayload] loadReports_brokenApi m
  have 2: "ReportsData.scope notFoundPayload = ''Unknown'' \<and> error notFoundPayload \<noteq> None"
    by (simp add: brokenApi_def)
  have h: "\<not> cache_miss 150 (''reports:'' @ ''vulnerabilityreports'') cachedWorld"
    using cachedWorld_hit by (simp add: cache_miss_def)
  from loadReports_scope [where h = sampleHost and cfg = defaultConfig
      and api = brokenApi and now = 150 and p = "''vulnerabilityreports''" and w = cachedWorld
      and d = notFoundPayload and w' = cachedWorld] loadReports_cachedWorld h
  have 3: "\<exists>cached. cache_hit (live 150 (store cachedWorld ''reports:vulnerabilityreports''))
                  = Some cached
         \<and> parseReports sampleHost cached = Inr notFoundPayload"
    by simp
  from m k ss 1 2 3 h loadReports_brokenApi loadReports_cachedWorld show ?thesis
    by simp
qed

text \<open>
  C8 as stated fails: a CRD object that states the scope \<open>namespaced\<close> gives a payload of
  that scope, and one that states \<open>Unknown\<close> gives a payload of scope \<open>Unknown\<close> with no
  error.
\<close>

theorem loadReports_scope_counterexample:
  "fst (loadReports sampleHost defaultConfig (reportsApi ''namespaced'' None []) 100
          ''vulnerabilityreports'' emptyWorld) =
     Inr \<lparr>manifests = [], clusterName = ''prod'', scope = ''namespaced'', error = None,
          resource = Some ''vulnerabilityreports''\<rparr>
   \<and> fst (loadReports sampleHost defaultConfig (reportsApi ''Unknown'' None []) 100
          ''vulnerabilityreports'' emptyWorld) =
     Inr \<lparr>manifests = [], clusterName = ''prod'', scope = ''Unknown'', error = None,
          resource = Some ''vulnerabilityreports''\<rparr>"
  using loadReports_reportsApi [OF projectItems_none, of "''namespaced''" None]
    loadReports_reportsApi [OF projectItems_none, of "''Unknown''" None]
  by auto

section \<open>The life of a cache entry\<close>

lemma CACHE_DURATION_unset: "env_CACHE_DURATION cfg = None \<Longrightarrow> CACHE_DURATION cfg = Some 1800"
  by (simp add: CACHE_DURATION_def or_default_def parseInt_def isWhiteSpace_def digit_val_def)

lemma listAllAquaSecurityCRDs_miss:
  assumes "served 2 w" and "cache_miss now ''aqua_security_crds'' w"
    and "CACHE_DURATION cfg = Some ttl" and "0 < ttl" and "crdListing api = Inr response"
  shows "\<exists>crds w'. listAllAquaSecurityCRDs h cfg api now w = (Inr crds, w')
           \<and> store w' = (store w)(''aqua_security_crds'' \<mapsto> (stringifyCRDs h crds, now + nat ttl))"
proof -
  have s1: "served (Suc 0) (record_call
      (ListClusterCustomObject ''apiextensions.k8s.io'' ''v1'' ''customresourcedefinitions'')
      (drop_faults (Suc 0) w))"
    using assms(1) by (simp add: served_2_drop)
  show ?thesis
    using assms(2-5) s1
    by (simp add: listAllAquaSecurityCRDs_def redis_get_served [OF served_2_1 [OF assms(1)]]
        cache_miss_def fetchAquaSecurityCRDs_def Let_def redis_setEx_served)
qed

lemma listAllAquaSecurityCRDs_fetch_fails:
  assumes "served 1 w" and "cache_miss now ''aqua_security_crds'' w"
    and "crdListing api = Inl e"
  shows "\<exists>w'. listAllAquaSecurityCRDs h cfg api now w = (Inr [], w') \<and> store w' = store w"
  using assms
  by (simp add: listAllAquaSecurityCRDs_def redis_get_served cache_miss_def
      fetchAquaSecurityCRDs_def Let_def)

lemma loadReports_inProcess_miss:
  assumes "cached_entry ms (cache st p) = None"
    and "namespacedObjects api p = Inr res \<or> namespacedObjects api p = Inl (Error m)"
  shows "\<exists>d' st'. loadReports_inProcess h cfg api ms p st = (Inr d', st')
           \<and> cache st' = (cache st)(p \<mapsto> \<lparr>data = d', timestamp = ms\<rparr>)"
  using assms by (auto simp: loadReports_inProcess_def Let_def caught_err_message_def)

lemma loadReports_inProcess_catch_throws:
  assumes "cached_entry ms (cache st p) = None"
    and "namespacedObjects api p = Inl (NonError v)" and "v = JNull \<or> v = JUndefined"
  shows "\<exists>e st'. loadReports_inProcess h cfg api ms p st = (Inl e, st') \<and> cache st' = cache st"
  using assms by (auto simp: loadReports_inProcess_def Let_def caught_err_message_def member_def)

text \<open>
  C9, as the code has it. Under the per-CRD reports key an entry is created on a cache miss
  once the fetch is over, whether it succeeded or failed. Under the discovery key an entry
  is created on a cache miss only when the listing of the CRDs succeeded: when it is
  rejected the operation returns the empty list and writes nothing. An entry expires the
  configured number of seconds after the call, 1800 when the environment sets none, and a
  write replaces whatever the key held. The in-process variant honours an entry for
  \<open>300 * 1000\<close> milliseconds; it writes its per-CRD entry, stamped with the time of the
  call, on every miss whose listing succeeded or was rejected with an \<open>Error\<close>, and it
  throws and writes nothing when the listing was rejected with null or undefined, whose
  \<open>message\<close> its \<open>catch\<close> block cannot read. The store is taken to serve the read
  and the write.
\<close>

theorem cache_entry_lifecycle:
  "(served 2 w \<and> cache_miss now (''reports:'' @ p) w \<and> CACHE_DURATION cfg = Some ttl \<and> 0 < ttl
    \<longrightarrow> (\<exists>d w'. loadReports h cfg api now p w = (Inr d, w')
           \<and> store w' = (store w)(''reports:'' @ p \<mapsto> (stringifyReports h d, now + nat ttl))))
   \<and> (served 2 w \<and> cache_miss now ''aqua_security_crds'' w \<and> CACHE_DURATION cfg = Some ttl
        \<and> 0 < ttl \<and> crdListing api = Inr response
    \<longrightarrow> (\<exists>crds w'. listAllAquaSecurityCRDs h cfg api now w = (Inr crds, w')
           \<and> store w' =
               (store w)(''aqua_security_crds'' \<mapsto> (stringifyCRDs h crds, now + nat ttl))))
   \<and> (served 1 w \<and> cache_miss now ''aqua_security_crds'' w \<and> crdListing api = Inl e
    \<longrightarrow> (\<exists>w'. listAllAquaSecurityCRDs h cfg api now w = (Inr [], w') \<and> store w' = store w))
   \<and> (env_CACHE_DURATION cfg = None \<longrightarrow> CACHE_DURATION cfg = Some 1800)
   \<and> CACHE_DURATION_ms = 300 * 1000
   \<and> (cached_entry ms (cache st p) = None
        \<and> (namespacedObjects api p = Inr res \<or> namespacedObjects api p = Inl (Error m))
    \<longrightarrow> (\<exists>d' st'. loadReports_inProcess h cfg api ms p st = (Inr d', st')
           \<and> cache st' = (cache st)(p \<mapsto> \<lparr>data = d', timestamp = ms\<rparr>)))
   \<and> (cached_entry ms (cache st p) = None \<and> namespacedObjects api p = Inl (NonError v)
        \<and> (v = JNull \<or> v = JUndefined)
    \<longrightarrow> (\<exists>e' st'. loadReports_inProcess h cfg api ms p st = (Inl e', st')
           \<and> cache st' = cache st))"
proof -
  have 1: "\<exists>d w'. loadReports h cfg api now p w = (Inr d, w')
           \<and> store w' = (store w)(''reports:'' @ p \<mapsto> (stringifyReports h d, now + nat ttl))"
    if "served 2 w \<and> cache_miss now (''reports:'' @ p) w \<and> CACHE_DURATION cfg = Some ttl \<and> 0 < ttl"
    using that loadReports_miss [of w now p cfg ttl h api] by simp
  have 2: "\<exists>crds w'. listAllAquaSecurityCRDs h cfg api now w = (Inr crds, w')
           \<and> store w' =
               (store w)(''aqua_security_crds'' \<mapsto> (stringifyCRDs h crds, now + nat ttl))"
    if "served 2 w \<and> cache_miss now ''aqua_security_crds'' w \<and> CACHE_DURATION cfg = Some ttl
        \<and> 0 < ttl \<and> crdListing api = Inr response"
    using that listAllAquaSecurityCRDs_miss [of w now cfg ttl api response h] by simp
  have 3: "\<exists>w'. listAllAquaSecurityCRDs h cfg api now w = (Inr [], w') \<and> store w' = store w"
    if "served 1 w \<and> cache_miss now ''aqua_security_crds'' w \<and> crdListing api = Inl e"
    using that listAllAquaSecurityCRDs_fetch_fails [of w now api e h cfg] by simp
  have 4: "CACHE_DURATION cfg = Some 1800" if "env_CACHE_DURATION cfg = None"
    using that by (rule CACHE_DURATION_unset)
  have 5: "CACHE_DURATION_ms = 300 * 1000"
    by (simp add: CACHE_DURATION_ms_def)
  have 6: "\<exists>d' st'. loadReports_inProcess h cfg api ms p st = (Inr d', st')
           \<and> cache st' = (cache st)(p \<mapsto> \<lparr>data = d', timestamp = ms\<rparr>)"
    if "cached_entry ms (cache st p) = None
        \<and> (namespacedObjects api p = Inr res \<or> namespacedObjects api p = Inl (Error m))"
    using that loadReports_inProcess_miss [of ms st p api res m h cfg] by blast
  have 7: "\<exists>e' st'. loadReports_inProcess h cfg api ms p st = (Inl e', st')
           \<and> cache st' = cache st"
    if "cached_entry ms (cache st p) = None \<and> namespacedObjects api p = Inl (NonError v)
        \<and> (v = JNull \<or> v = JUndefined)"
    using that loadReports_inProcess_catch_throws [of ms st p api v h cfg] by blast
  from 1 2 3 4 5 6 7 show ?thesis
    by blast
qed

theorem cache_entry_lifecycle_witness:
  "served 2 emptyWorld \<and> cache_miss 100 ''reports:vulnerabilityreports'' emptyWorld
   \<and> CACHE_DURATION defaultConfig = Some 1800
   \<and> (\<exists>d w'. loadReports sampleHost defaultConfig sampleApi 100 ''vulnerabilityreports'' emptyWorld
                = (Inr d, w')
         \<and> store w' = (store emptyWorld)(''reports:vulnerabilityreports'' \<mapsto>
                          (stringifyReports sampleHost d, 1900)))
   \<and> (\<exists>response. crdListing sampleApi = Inr response)
   \<and> (\<exists>crds w'. listAllAquaSecurityCRDs sampleHost defaultConfig sampleApi 100 emptyWorld
                = (Inr crds, w')
         \<and> store w' = (store emptyWorld)(''aqua_security_crds'' \<mapsto>
                          (stringifyCRDs sampleHost crds, 1900)))
   \<and> crdListing brokenApi = Inl (Error ''503 Service Unavailable'')
   \<and> (\<exists>w'. listAllAquaSecurityCRDs sampleHost defaultConfig brokenApi 100 emptyWorld = (Inr [], w')
         \<and> store w' = store emptyWorld)
   \<and> env_CACHE_DURATION defaultConfig = None
   \<and> cached_entry 0 (cache emptyProcess ''vulnerabilityreports'') = None
   \<and> namespacedObjects brokenApi ''vulnerabilityreports'' = Inl (Error ''503 Service Unavailable'')
   \<and> (\<exists>d' st'. loadReports_inProcess sampleHost defaultConfig brokenApi 0 ''vulnerabilityreports''
                  emptyProcess = (Inr d', st')
         \<and> cache st' = (cache emptyProcess)(''vulnerabilityreports'' \<mapsto>
                          \<lparr>data = d', timestamp = 0\<rparr>))
   \<and> namespacedObjects nullRejectionApi ''vulnerabilityreports'' = Inl (NonError JNull)
   \<and> (\<exists>e' st'. loadReports_inProcess sampleHost defaultConfig nullRejectionApi 0
                  ''vulnerabilityreports'' emptyProcess = (Inl e', st')
         \<and> cache st' = cache emptyProcess)"
proof -
  have a: "served 2 emptyWorld \<and> cache_miss 100 (''reports:'' @ ''vulnerabilityreports'') emptyWorld
      \<and> CACHE_DURATION defaultConfig = Some 1800 \<and> (0::int) < 1800"
    by (simp add: served_emptyWorld cache_miss_emptyWorld CACHE_DURATION_default)
  have b: "served 1 emptyWorld \<and> cache_miss 100 ''aqua_security_crds'' emptyWorld
      \<and> crdListing brokenApi = Inl (Error ''503 Service Unavailable'')"
    by (simp add: served_emptyWorld cache_miss_emptyWorld brokenApi_def)
  obtain response where r: "crdListing sampleApi = Inr response"
    by (simp add: sampleApi_def)
  have c: "served 2 emptyWorld \<and> cache_miss 100 ''aqua_security_crds'' emptyWorld
      \<and> CACHE_DURATION defaultConfig = Some 1800 \<and> (0::int) < 1800
      \<and> crdListing sampleApi = Inr response"
    using r by (simp add: served_emptyWorld cache_miss_emptyWorld CACHE_DURATION_default)
  have d: "env_CACHE_DURATION defaultConfig = None"
    by (simp add: defaultConfig_def)
  have f: "cached_entry 0 (cache emptyProcess ''vulnerabilityreports'') = None
      \<and> (namespacedObjects brokenApi ''vulnerabilityreports'' = Inr None
          \<or> namespacedObjects brokenApi ''vulnerabilityreports''
              = Inl (Error ''503 Service Unavailable''))"
    by (simp add: cached_entry_def emptyProcess_def brokenApi_def)
  have g: "cached_entry 0 (cache emptyProcess ''vulnerabilityreports'') = None
      \<and> namespacedObjects nullRejectionApi ''vulnerabilityreports'' = Inl (NonError JNull)
      \<and> (JNull = JNull \<or> JNull = JUndefined)"
    by (simp add: cached_entry_def emptyProcess_def nullRejectionApi_def)
  from cache_entry_lifecycle [where w = emptyWorld and now = 100 and p = "''vulnerabilityreports''"
      and cfg = defaultConfig and ttl = 1800 and h = sampleHost and api = sampleApi] a
  have 1: "\<exists>d w'. loadReports sampleHost defaultConfig sampleApi 100 ''vulnerabilityreports''
                emptyWorld = (Inr d, w')
         \<and> store w' = (store emptyWorld)(''reports:vulnerabilityreports'' \<mapsto>
                          (stringifyReports sampleHost d, 1900))"
    by simp
  from cache_entry_lifecycle [where w = emptyWorld and now = 100
      and cfg = defaultConfig and h = sampleHost and api = brokenApi
      and e = "Error ''503 Service Unavailable''"] b
  have 2: "\<exists>w'. listAllAquaSecurityCRDs sampleHost defaultConfig brokenApi 100 emptyWorld
               = (Inr [], w') \<and> store w' = store emptyWorld"
    by simp
  from cache_entry_lifecycle [where w = emptyWorld and now = 100
      and cfg = defaultConfig and ttl = 1800 and h = sampleHost and api = sampleApi
      and response = response] c
  have 3: "\<exists>crds w'. listAllAquaSecurityCRDs sampleHost defaultConfig sampleApi 100 emptyWorld
                = (Inr crds, w')
         \<and> store w' = (store emptyWorld)(''aqua_security_crds'' \<mapsto>
                          (stringifyCRDs sampleHost crds, 1900))"
    by simp
  from cache_entry_lifecycle [where cfg = defaultConfig and h = sampleHost and api = brokenApi
      and ms = 0 and st = emptyProcess and p = "''vulnerabilityreports''" and res = None
      and m = "''503 Service Unavailable''"] f
  have 4: "\<exists>d' st'. loadReports_inProcess sampleHost defaultConfig brokenApi 0
                  ''vulnerabilityreports'' emptyProcess = (Inr d', st')
         \<and> cache st' = (cache emptyProcess)(''vulnerabilityreports'' \<mapsto>
                          \<lparr>data = d', timestamp = 0\<rparr>)"
    by simp
  from cache_entry_lifecycle [where cfg = defaultConfig and h = sampleHost
      and api = nullRejectionApi and ms = 0 and st = emptyProcess
      and p = "''vulnerabilityreports''" and v = JNull] g
  have 5: "\<exists>e' st'. loadReports_inProcess sampleHost defaultConfig nullRejectionApi 0
                  ''vulnerabilityreports'' emptyProcess = (Inl e', st')
         \<and> cache st' = cache emptyProcess"
    by simp
  have n: "namespacedObjects brokenApi ''vulnerabilityreports''
             = Inl (Error ''503 Service Unavailable'')"
    by (simp add: brokenApi_def)
  from a b r d g n 1 2 3 4 5 show ?thesis
    by auto
qed

text \<open>
  C9 as stated fails for the discovery key: after a miss whose fetch fails, the store holds
  no entry under \<open>aqua_security_crds\<close>.
\<close>

theorem discovery_failure_not_cached_counterexample:
  "fst (listAllAquaSecurityCRDs sampleHost defaultConfig brokenApi 100 emptyWorld) = Inr []
   \<and> store (snd (listAllAquaSecurityCRDs sampleHost defaultConfig brokenApi 100 emptyWorld))
        ''aqua_security_crds'' = None"
  by (simp add: listAllAquaSecurityCRDs_def redis_get_def next_fault_def emptyWorld_def
      live_def cache_hit_def fetchAquaSecurityCRDs_def brokenApi_def record_call_def)

section \<open>The projected record\<close>




















subsection \<open>The keys of a record\<close>





lemma hd_replace_value: "ps \<noteq> [] \<Longrightarrow> fst (hd (replace_value k v ps)) = fst (hd ps)"
  by (cases ps) auto




section \<open>loadReports: the records of a payload\<close>





subsection \<open>The examples, evaluated\<close>









text \<open>A column whose name is an array index is listed before the \<open>metadata\<close> key.\<close>

lemma projectItem_index_column:
  "projectItem sampleHost
     [\<lparr>name = ''1'', description = None, jsonPath = ''.metadata.name'',
       type = ''string'', priority = None\<rparr>] sampleItem =
   Inr [(''1'', JStr ''r1''),
        (''metadata'', JObj [(''name'', JStr ''r1''),
                             (''creationTimestamp'', JStr ''2024-05-01T10:00:00Z'')])]"
  by (simp add: projectItem_def member_sample extract_name assign_def update_key_def
      index_key_def array_index_def digit_val_def)

end
